theory Spec2Isabelle
  imports Main "HOL-Library.Word"
begin

section \<open>Identities and the connection handshake\<close>

text \<open>
  The real-time layer (the socket handler module) authenticates every connection in a
  middleware that runs before the connection handler. Object ids, room names and tokens
  are strings; dates are natural numbers (milliseconds). A JavaScript number is an IEEE
  double; the layer stores and forwards numbers without computing with them, so a number
  is carried as the 64 bits of the double.
\<close>

type_synonym object_id = string

type_synonym js_number = "64 word"

text \<open>
  Modelled from the spec: the User model (\<^verbatim>\<open>models/User\<close>) is not among the sources. The
  identity carries the fields the socket module reads from it: \<^verbatim>\<open>_id\<close>, \<^verbatim>\<open>username\<close>,
  \<^verbatim>\<open>firstName\<close>, \<^verbatim>\<open>lastName\<close>, \<^verbatim>\<open>avatar\<close> and \<^verbatim>\<open>isActive\<close>.
\<close>

record user =
  uid :: object_id
  username :: string
  firstName :: string
  lastName :: string
  avatar :: string
  isActive :: bool

text \<open>
  \<^verbatim>\<open>jwt.verify(token, secret)\<close> is a library call: it throws on a bad signature and on an
  expired token, and returns the decoded payload otherwise; the payload's \<^verbatim>\<open>id\<close> may be
  absent. It is a parameter of the model, as are the clock, the random suffix of generated
  ids and the failures of the document store (one flag for each storage call of a handler,
  numbered in the order the handler makes them).
\<close>

datatype jwt_outcome = InvalidSignature | TokenExpired | Payload "object_id option"

record env =
  now :: nat
  rnd :: string
  jwt_verify :: "string \<Rightarrow> jwt_outcome"
  db_fault :: "nat \<Rightarrow> bool"

record handshake =
  auth_token :: "string option"
  authorization :: "string option"

text \<open>JavaScript's \<^verbatim>\<open>s.split(c)\<close> for a one-character separator.\<close>

fun split_on :: "char \<Rightarrow> string \<Rightarrow> string list" where
  "split_on c [] = [[]]"
| "split_on c (x # xs) =
     (if x = c then [] # split_on c xs
      else (case split_on c xs of [] \<Rightarrow> [[x]] | w # ws \<Rightarrow> (x # w) # ws))"

text \<open>A string that is absent or empty is falsy.\<close>

definition falsy :: "string option \<Rightarrow> bool" where
  "falsy x = (case x of None \<Rightarrow> True | Some t \<Rightarrow> t = [])"

definition header_token :: "handshake \<Rightarrow> string option" where
  "header_token h =
     (case authorization h of
        None \<Rightarrow> None
      | Some a \<Rightarrow> (case split_on CHR '' '' a of _ # t # _ \<Rightarrow> Some t | _ \<Rightarrow> None))"

text \<open>\<^verbatim>\<open>socket.handshake.auth.token || socket.handshake.headers.authorization?.split(' ')[1]\<close>\<close>

definition handshake_token :: "handshake \<Rightarrow> string option" where
  "handshake_token h = (if falsy (auth_token h) then header_token h else auth_token h)"

text \<open>
  \<^verbatim>\<open>Model.findById(id)\<close> resolves to the document or to null, or rejects: when the store
  fails, and when the id cannot be cast to an object id, which is 24 hexadecimal digits
  (the error handler of the HTTP layer names this case, ``Mongoose bad ObjectId''). A
  document is stored under its own id, so the cast decides for the ids that have no
  document; the short ids of the examples stand for the ids of stored documents.
\<close>

definition is_hex :: "char \<Rightarrow> bool" where
  "is_hex c = (c \<in> set ''0123456789abcdefABCDEF'')"

definition well_formed_id :: "string \<Rightarrow> bool" where
  "well_formed_id x = (length x = 24 \<and> list_all is_hex x)"

definition findById :: "bool \<Rightarrow> (object_id \<rightharpoonup> 'a) \<Rightarrow> object_id \<Rightarrow> string + 'a option" where
  "findById fault store i =
     (if fault then Inl ''storage failure''
      else (case store i of
              Some d \<Rightarrow> Inr (Some d)
            | None \<Rightarrow> if well_formed_id i then Inr None else Inl ''Cast to ObjectId failed''))"

text \<open>
  The middleware: \<open>Inl msg\<close> is \<^verbatim>\<open>next(new Error(msg))\<close>, \<open>Inr u\<close> is \<^verbatim>\<open>socket.user = u; next()\<close>.
  Storage call 0 is \<^verbatim>\<open>User.findById\<close>; a throw anywhere in the body lands in the catch.
\<close>

definition authenticate :: "env \<Rightarrow> (object_id \<rightharpoonup> user) \<Rightarrow> handshake \<Rightarrow> string + user" where
  "authenticate e us h =
     (let token = handshake_token h in
      if falsy token then Inl ''Authentication error: No token provided''
      else (case jwt_verify e (the token) of
              Payload i \<Rightarrow>
                (case (case i of None \<Rightarrow> (if db_fault e 0 then Inl ''storage failure''
                                           else Inr None)
                       | Some k \<Rightarrow> findById (db_fault e 0) us k) of
                   Inl err \<Rightarrow> Inl ''Authentication error: Invalid token''
                 | Inr None \<Rightarrow> Inl ''Authentication error: Invalid user''
                 | Inr (Some u) \<Rightarrow>
                     if isActive u then Inr u
                     else Inl ''Authentication error: Invalid user'')
            | _ \<Rightarrow> Inl ''Authentication error: Invalid token''))"


section \<open>The whiteboard document\<close>

text \<open>
  The whiteboard schema, restricted to the paths the real-time layer reads or writes:
  the element list, the collaborator (presence) list and the version counter, with the
  document's name, project and archive flag (the description, the canvas, the settings and
  the document's own timestamps are left out). An element keeps its \<^verbatim>\<open>id\<close>, \<^verbatim>\<open>type\<close>,
  \<^verbatim>\<open>position\<close>, \<^verbatim>\<open>size\<close>, text content, \<^verbatim>\<open>rotation\<close>, \<^verbatim>\<open>zIndex\<close>, creator and the two
  dates. Paths a client may leave out are options.
\<close>

record element =
  el_id :: string
  el_type :: "string option"
  pos_x :: "js_number option"
  pos_y :: "js_number option"
  size_width :: "js_number option"
  size_height :: "js_number option"
  el_text :: "string option"
  rotation :: js_number
  zIndex :: js_number
  el_createdBy :: "object_id option"
  el_createdAt :: nat
  el_updatedAt :: nat

text \<open>The element object a client sends with \<^verbatim>\<open>whiteboard-element-add\<close>.\<close>

record element_data =
  ed_id :: "string option"
  ed_type :: "string option"
  ed_x :: "js_number option"
  ed_y :: "js_number option"
  ed_width :: "js_number option"
  ed_height :: "js_number option"
  ed_text :: "string option"
  ed_rotation :: "js_number option"
  ed_zIndex :: "js_number option"
  ed_createdBy :: "object_id option"

text \<open>
  The \<^verbatim>\<open>updates\<close> object of \<^verbatim>\<open>whiteboard-element-update\<close>: the paths it assigns. A
  nested object (\<^verbatim>\<open>position\<close>, \<^verbatim>\<open>size\<close>, \<^verbatim>\<open>content\<close>) is given whole, with the members it
  has.
\<close>

record element_updates =
  eu_id :: "string option"
  eu_type :: "string option"
  eu_position :: "(js_number option \<times> js_number option) option"
  eu_size :: "(js_number option \<times> js_number option) option"
  eu_content :: "string option option"
  eu_rotation :: "js_number option"
  eu_zIndex :: "js_number option"

type_synonym cursor = "js_number \<times> js_number"

record collaborator =
  collab_user :: object_id
  collab_cursor :: cursor
  lastActive :: nat

record whiteboard =
  wb_project :: object_id
  wb_name :: string
  wb_createdBy :: object_id
  elements :: "element list"
  collaborators :: "collaborator list"
  version :: nat
  wb_isArchived :: bool

definition element_types :: "string list" where
  "element_types = [''text'', ''shape'', ''image'', ''sticky-note'', ''line'', ''arrow'',
                    ''rectangle'', ''circle'', ''triangle'']"

text \<open>The schema's validators on an element: \<^verbatim>\<open>id\<close>, \<^verbatim>\<open>type\<close>, \<^verbatim>\<open>position.x\<close> and
  \<^verbatim>\<open>position.y\<close> are required, \<^verbatim>\<open>type\<close> is one of the enumerated names.\<close>

definition valid_element :: "element \<Rightarrow> bool" where
  "valid_element el =
     (el_id el \<noteq> [] \<and>
      (case el_type el of None \<Rightarrow> False | Some t \<Rightarrow> t \<in> set element_types) \<and>
      pos_x el \<noteq> None \<and> pos_y el \<noteq> None)"

text \<open>Decimal digits of a date, for the generated ids \<^verbatim>\<open>element_${Date.now()}_${random}\<close>.\<close>

fun show_nat :: "nat \<Rightarrow> string" where
  "show_nat n =
     (if n < 10 then [char_of (48 + n)]
      else show_nat (n div 10) @ [char_of (48 + n mod 10)])"

declare show_nat.simps [simp del]

text \<open>The double 100, the default of an element's width and height.\<close>

definition hundred :: js_number where
  "hundred = 0x4059000000000000"

definition opt_or :: "'a option \<Rightarrow> 'a \<Rightarrow> 'a" where
  "opt_or x d = (case x of None \<Rightarrow> d | Some v \<Rightarrow> v)"

text \<open>\<^verbatim>\<open>elementData.id || `element_${Date.now()}_${...}`\<close>\<close>

definition element_id_for :: "env \<Rightarrow> string option \<Rightarrow> string" where
  "element_id_for e given =
     (if falsy given then ''element_'' @ show_nat (now e) @ ''_'' @ rnd e else the given)"

text \<open>
  The methods of a document mutate it in memory and end in \<^verbatim>\<open>this.save()\<close>. The
  definitions named \<open>_doc\<close> are the mutations; the methods themselves follow the store.

  \<^verbatim>\<open>addElement\<close>: the pushed object spreads the client's data, then sets \<^verbatim>\<open>id\<close> and both
  dates; the array casts it to a subdocument, filling the schema defaults (size 100 by 100,
  rotation 0, zIndex 0). No check is made against the ids already in the list.
\<close>

definition addElement_doc :: "env \<Rightarrow> element_data \<Rightarrow> whiteboard \<Rightarrow> whiteboard" where
  "addElement_doc e d wb =
     wb\<lparr>elements := elements wb @
        [\<lparr>el_id = element_id_for e (ed_id d),
          el_type = ed_type d,
          pos_x = ed_x d, pos_y = ed_y d,
          size_width = Some (opt_or (ed_width d) hundred),
          size_height = Some (opt_or (ed_height d) hundred),
          el_text = ed_text d,
          rotation = opt_or (ed_rotation d) 0,
          zIndex = opt_or (ed_zIndex d) 0,
          el_createdBy = ed_createdBy d,
          el_createdAt = now e, el_updatedAt = now e\<rparr>]\<rparr>"

text \<open>
  \<^verbatim>\<open>Object.assign(element, updates, { updatedAt: new Date() })\<close>: every path the
  updates name is assigned. A nested object replaces the element's whole: a position
  without \<^verbatim>\<open>y\<close> leaves the element without \<^verbatim>\<open>y\<close>, a size without a height leaves it
  without a height.
\<close>

definition assign_element :: "env \<Rightarrow> element_updates \<Rightarrow> element \<Rightarrow> element" where
  "assign_element e u el =
     el\<lparr>el_id := opt_or (eu_id u) (el_id el),
        el_type := (case eu_type u of None \<Rightarrow> el_type el | Some t \<Rightarrow> Some t),
        pos_x := (case eu_position u of None \<Rightarrow> pos_x el | Some (x, y) \<Rightarrow> x),
        pos_y := (case eu_position u of None \<Rightarrow> pos_y el | Some (x, y) \<Rightarrow> y),
        size_width := (case eu_size u of None \<Rightarrow> size_width el | Some (w, h) \<Rightarrow> w),
        size_height := (case eu_size u of None \<Rightarrow> size_height el | Some (w, h) \<Rightarrow> h),
        el_text := (case eu_content u of None \<Rightarrow> el_text el | Some t \<Rightarrow> t),
        rotation := opt_or (eu_rotation u) (rotation el),
        zIndex := opt_or (eu_zIndex u) (zIndex el),
        el_updatedAt := now e\<rparr>"

text \<open>\<^verbatim>\<open>xs.find(p)\<close> followed by a mutation of the found object: the first match changes.\<close>

fun update_first :: "('a \<Rightarrow> bool) \<Rightarrow> ('a \<Rightarrow> 'a) \<Rightarrow> 'a list \<Rightarrow> 'a list" where
  "update_first p f [] = []"
| "update_first p f (x # xs) = (if p x then f x # xs else x # update_first p f xs)"

text \<open>
  \<^verbatim>\<open>updateElement\<close> throws \<^verbatim>\<open>Element not found\<close> when no element has the id, before any
  save.
\<close>

definition updateElement_doc :: "env \<Rightarrow> string \<Rightarrow> element_updates \<Rightarrow> whiteboard \<Rightarrow> string + whiteboard" where
  "updateElement_doc e elementId u wb =
     (case find (\<lambda>el. el_id el = elementId) (elements wb) of
        Some _ \<Rightarrow> Inr (wb\<lparr>elements :=
                     update_first (\<lambda>el. el_id el = elementId) (assign_element e u) (elements wb)\<rparr>)
      | None \<Rightarrow> Inl ''Element not found'')"

text \<open>\<^verbatim>\<open>removeElement\<close> filters the list; it never throws.\<close>

definition removeElement_doc :: "string \<Rightarrow> whiteboard \<Rightarrow> whiteboard" where
  "removeElement_doc elementId wb = wb\<lparr>elements := filter (\<lambda>el. el_id el \<noteq> elementId) (elements wb)\<rparr>"

definition updateCollaboratorCursor_doc :: "env \<Rightarrow> object_id \<Rightarrow> cursor \<Rightarrow> whiteboard \<Rightarrow> whiteboard" where
  "updateCollaboratorCursor_doc e userId c wb =
     (case find (\<lambda>k. collab_user k = userId) (collaborators wb) of
        Some _ \<Rightarrow> wb\<lparr>collaborators :=
                    update_first (\<lambda>k. collab_user k = userId)
                      (\<lambda>k. k\<lparr>collab_cursor := c, lastActive := now e\<rparr>) (collaborators wb)\<rparr>
      | None \<Rightarrow> wb\<lparr>collaborators := collaborators wb @
                    [\<lparr>collab_user = userId, collab_cursor = c, lastActive = now e\<rparr>]\<rparr>)"

definition removeCollaborator_doc :: "object_id \<Rightarrow> whiteboard \<Rightarrow> whiteboard" where
  "removeCollaborator_doc userId wb =
     wb\<lparr>collaborators := filter (\<lambda>k. collab_user k \<noteq> userId) (collaborators wb)\<rparr>"


section \<open>The chat document\<close>

text \<open>
  The chat schema, restricted in the same way: participants (with the typing flag and the
  last-read date) and messages (with the read-by and reaction lists and the edited and
  deleted flags).
\<close>

record attachment =
  att_filename :: string
  att_url :: string

record participant =
  part_user :: object_id
  part_role :: string
  joinedAt :: nat
  lastRead :: nat
  isTyping :: bool

record message =
  msg_id :: string
  sender :: object_id
  content :: string
  msg_type :: string
  attachments :: "attachment list"
  reactions :: "(object_id \<times> string) list"
  readBy :: "(object_id \<times> nat) list"
  isEdited :: bool
  editedAt :: "nat option"
  isDeleted :: bool
  deletedAt :: "nat option"
  msg_createdAt :: nat

text \<open>The object handed to \<^verbatim>\<open>addMessage\<close>, and the \<^verbatim>\<open>updates\<close> object of \<^verbatim>\<open>updateMessage\<close>.\<close>

record message_data =
  md_id :: "string option"
  md_sender :: object_id
  md_content :: string
  md_type :: string
  md_attachments :: "attachment list"

record message_updates =
  mu_id :: "string option"
  mu_content :: "string option"
  mu_type :: "string option"
  mu_isDeleted :: "bool option"

record chat =
  chat_project :: object_id
  chat_name :: string
  participants :: "participant list"
  messages :: "message list"
  lastActivity :: nat
  chat_isArchived :: bool

definition message_types :: "string list" where
  "message_types = [''text'', ''image'', ''file'', ''system'']"

text \<open>The schema's validators on a message: \<^verbatim>\<open>id\<close>, \<^verbatim>\<open>sender\<close> and \<^verbatim>\<open>content\<close> are
  required, the content has at most 2000 characters, the type is one of the enumerated
  names (the length counts the characters of the model's strings).\<close>

definition valid_message :: "message \<Rightarrow> bool" where
  "valid_message m =
     (msg_id m \<noteq> [] \<and> sender m \<noteq> [] \<and> content m \<noteq> [] \<and> length (content m) \<le> 2000 \<and>
      msg_type m \<in> set message_types)"

definition message_id_for :: "env \<Rightarrow> string option \<Rightarrow> string" where
  "message_id_for e given =
     (if falsy given then ''msg_'' @ show_nat (now e) @ ''_'' @ rnd e else the given)"

text \<open>
  \<^verbatim>\<open>addMessage\<close>: the pushed object spreads the message data, then sets \<^verbatim>\<open>id\<close> and
  \<^verbatim>\<open>createdAt\<close>; the paths it does not name take the schema defaults (empty reaction and
  read-by lists, not edited, not deleted).
\<close>

definition addMessage_doc :: "env \<Rightarrow> message_data \<Rightarrow> chat \<Rightarrow> chat" where
  "addMessage_doc e d c =
     c\<lparr>messages := messages c @
        [\<lparr>msg_id = message_id_for e (md_id d),
          sender = md_sender d,
          content = md_content d,
          msg_type = md_type d,
          attachments = md_attachments d,
          reactions = [],
          readBy = [],
          isEdited = False, editedAt = None,
          isDeleted = False, deletedAt = None,
          msg_createdAt = now e\<rparr>]\<rparr>"

text \<open>\<^verbatim>\<open>Object.assign(message, updates, { isEdited: true, editedAt: new Date() })\<close>\<close>

definition assign_message :: "env \<Rightarrow> message_updates \<Rightarrow> message \<Rightarrow> message" where
  "assign_message e u m =
     m\<lparr>msg_id := opt_or (mu_id u) (msg_id m),
       content := opt_or (mu_content u) (content m),
       msg_type := opt_or (mu_type u) (msg_type m),
       isDeleted := opt_or (mu_isDeleted u) (isDeleted m),
       isEdited := True,
       editedAt := Some (now e)\<rparr>"

text \<open>\<^verbatim>\<open>updateMessage\<close> looks the message up by id only; it does not read the deleted flag.\<close>

definition updateMessage_doc :: "env \<Rightarrow> string \<Rightarrow> message_updates \<Rightarrow> chat \<Rightarrow> string + chat" where
  "updateMessage_doc e messageId u c =
     (case find (\<lambda>m. msg_id m = messageId) (messages c) of
        Some _ \<Rightarrow> Inr (c\<lparr>messages :=
                     update_first (\<lambda>m. msg_id m = messageId) (assign_message e u) (messages c)\<rparr>)
      | None \<Rightarrow> Inl ''Message not found'')"

definition deleteMessage_doc :: "env \<Rightarrow> string \<Rightarrow> chat \<Rightarrow> string + chat" where
  "deleteMessage_doc e messageId c =
     (case find (\<lambda>m. msg_id m = messageId) (messages c) of
        Some _ \<Rightarrow> Inr (c\<lparr>messages :=
                     update_first (\<lambda>m. msg_id m = messageId)
                       (\<lambda>m. m\<lparr>isDeleted := True, deletedAt := Some (now e)\<rparr>) (messages c)\<rparr>)
      | None \<Rightarrow> Inl ''Message not found'')"

text \<open>\<^verbatim>\<open>markAsRead(userId, messageId = null)\<close>\<close>

definition markAsRead_doc :: "env \<Rightarrow> object_id \<Rightarrow> string option \<Rightarrow> chat \<Rightarrow> string + chat" where
  "markAsRead_doc e userId messageId c =
     (case find (\<lambda>p. part_user p = userId) (participants c) of
        Some _ \<Rightarrow>
          (let ms =
             (if falsy messageId then messages c
              else update_first (\<lambda>m. msg_id m = the messageId)
                     (\<lambda>m. (case find (\<lambda>r. fst r = userId) (readBy m) of
                              Some _ \<Rightarrow> m
                            | None \<Rightarrow> m\<lparr>readBy := readBy m @ [(userId, now e)]\<rparr>))
                     (messages c))
           in Inr (c\<lparr>messages := ms,
                     participants :=
                       update_first (\<lambda>p. part_user p = userId) (\<lambda>p. p\<lparr>lastRead := now e\<rparr>)
                         (participants c)\<rparr>))
      | None \<Rightarrow> Inl ''User not found in chat'')"

definition updateTypingStatus_doc :: "object_id \<Rightarrow> bool \<Rightarrow> chat \<Rightarrow> string + chat" where
  "updateTypingStatus_doc userId flag c =
     (case find (\<lambda>p. part_user p = userId) (participants c) of
        Some _ \<Rightarrow> Inr (c\<lparr>participants :=
                     update_first (\<lambda>p. part_user p = userId) (\<lambda>p. p\<lparr>isTyping := flag\<rparr>)
                       (participants c)\<rparr>)
      | None \<Rightarrow> Inl ''User not found in chat'')"

section \<open>Connections, rooms and the document store\<close>

record socket =
  sock_user :: user
  projectId :: "string option"
  whiteboardId :: "string option"
  chatId :: "string option"

text \<open>
  The server: the live sockets by connection id, the members of each room, and the three
  collections of the document store.
\<close>

record server =
  sockets :: "nat \<rightharpoonup> socket"
  rooms :: "string \<Rightarrow> nat set"
  users :: "object_id \<rightharpoonup> user"
  whiteboards :: "object_id \<rightharpoonup> whiteboard"
  chats :: "object_id \<rightharpoonup> chat"

definition join :: "nat \<Rightarrow> string \<Rightarrow> server \<Rightarrow> server" where
  "join sid r s = s\<lparr>rooms := (rooms s)(r := insert sid (rooms s r))\<rparr>"

definition leave :: "nat \<Rightarrow> string \<Rightarrow> server \<Rightarrow> server" where
  "leave sid r s = s\<lparr>rooms := (rooms s)(r := rooms s r - {sid})\<rparr>"

definition set_sock :: "nat \<Rightarrow> (socket \<Rightarrow> socket) \<Rightarrow> server \<Rightarrow> server" where
  "set_sock sid f s = s\<lparr>sockets := (sockets s)(sid := map_option f (sockets s sid))\<rparr>"

text \<open>
  \<^verbatim>\<open>doc.save()\<close> validates, runs the pre-save hook and writes, or rejects and writes
  nothing. The hook of the whiteboard adds one to the version when the element list was
  modified; the hook of the chat stamps the last activity when the message list was
  modified. A list was modified when it differs from the stored one.
\<close>

definition find_whiteboard :: "env \<Rightarrow> nat \<Rightarrow> object_id \<Rightarrow> server \<Rightarrow> string + whiteboard option" where
  "find_whiteboard e k wid s = findById (db_fault e k) (whiteboards s) wid"

definition find_chat :: "env \<Rightarrow> nat \<Rightarrow> object_id \<Rightarrow> server \<Rightarrow> string + chat option" where
  "find_chat e k cid s = findById (db_fault e k) (chats s) cid"

definition save_whiteboard :: "env \<Rightarrow> nat \<Rightarrow> object_id \<Rightarrow> whiteboard \<Rightarrow> server \<Rightarrow> string + (whiteboard \<times> server)" where
  "save_whiteboard e k wid wb s =
     (if db_fault e k then Inl ''storage failure''
      else if \<not> list_all valid_element (elements wb) then Inl ''Whiteboard validation failed''
      else (let wb' = (if map_option elements (whiteboards s wid) = Some (elements wb) then wb
                       else wb\<lparr>version := version wb + 1\<rparr>)
            in Inr (wb', s\<lparr>whiteboards := (whiteboards s)(wid \<mapsto> wb')\<rparr>)))"

definition save_chat :: "env \<Rightarrow> nat \<Rightarrow> object_id \<Rightarrow> chat \<Rightarrow> server \<Rightarrow> string + (chat \<times> server)" where
  "save_chat e k cid c s =
     (if db_fault e k then Inl ''storage failure''
      else if \<not> list_all valid_message (messages c) then Inl ''Chat validation failed''
      else (let c' = (if map_option messages (chats s cid) = Some (messages c) then c
                      else c\<lparr>lastActivity := now e\<rparr>)
            in Inr (c', s\<lparr>chats := (chats s)(cid \<mapsto> c')\<rparr>)))"


section \<open>The methods of the documents\<close>

text \<open>Each method applies its mutation to the loaded document and saves it; a throw of
  the mutation comes before the save.\<close>

definition addElement ::
  "env \<Rightarrow> nat \<Rightarrow> object_id \<Rightarrow> element_data \<Rightarrow> whiteboard \<Rightarrow> server \<Rightarrow> string + (whiteboard \<times> server)" where
  "addElement e k wid d wb s = save_whiteboard e k wid (addElement_doc e d wb) s"

definition updateElement ::
  "env \<Rightarrow> nat \<Rightarrow> object_id \<Rightarrow> string \<Rightarrow> element_updates \<Rightarrow> whiteboard \<Rightarrow> server
     \<Rightarrow> string + (whiteboard \<times> server)" where
  "updateElement e k wid elementId u wb s =
     (case updateElement_doc e elementId u wb of
        Inl err \<Rightarrow> Inl err
      | Inr wb1 \<Rightarrow> save_whiteboard e k wid wb1 s)"

definition removeElement ::
  "env \<Rightarrow> nat \<Rightarrow> object_id \<Rightarrow> string \<Rightarrow> whiteboard \<Rightarrow> server \<Rightarrow> string + (whiteboard \<times> server)" where
  "removeElement e k wid elementId wb s = save_whiteboard e k wid (removeElement_doc elementId wb) s"

definition updateCollaboratorCursor ::
  "env \<Rightarrow> nat \<Rightarrow> object_id \<Rightarrow> object_id \<Rightarrow> cursor \<Rightarrow> whiteboard \<Rightarrow> server
     \<Rightarrow> string + (whiteboard \<times> server)" where
  "updateCollaboratorCursor e k wid userId c wb s =
     save_whiteboard e k wid (updateCollaboratorCursor_doc e userId c wb) s"

definition removeCollaborator ::
  "env \<Rightarrow> nat \<Rightarrow> object_id \<Rightarrow> object_id \<Rightarrow> whiteboard \<Rightarrow> server \<Rightarrow> string + (whiteboard \<times> server)" where
  "removeCollaborator e k wid userId wb s =
     save_whiteboard e k wid (removeCollaborator_doc userId wb) s"

definition addMessage ::
  "env \<Rightarrow> nat \<Rightarrow> object_id \<Rightarrow> message_data \<Rightarrow> chat \<Rightarrow> server \<Rightarrow> string + (chat \<times> server)" where
  "addMessage e k cid d c s = save_chat e k cid (addMessage_doc e d c) s"

definition updateMessage ::
  "env \<Rightarrow> nat \<Rightarrow> object_id \<Rightarrow> string \<Rightarrow> message_updates \<Rightarrow> chat \<Rightarrow> server
     \<Rightarrow> string + (chat \<times> server)" where
  "updateMessage e k cid messageId u c s =
     (case updateMessage_doc e messageId u c of
        Inl err \<Rightarrow> Inl err
      | Inr c1 \<Rightarrow> save_chat e k cid c1 s)"

definition deleteMessage ::
  "env \<Rightarrow> nat \<Rightarrow> object_id \<Rightarrow> string \<Rightarrow> chat \<Rightarrow> server \<Rightarrow> string + (chat \<times> server)" where
  "deleteMessage e k cid messageId c s =
     (case deleteMessage_doc e messageId c of
        Inl err \<Rightarrow> Inl err
      | Inr c1 \<Rightarrow> save_chat e k cid c1 s)"

definition markAsRead ::
  "env \<Rightarrow> nat \<Rightarrow> object_id \<Rightarrow> object_id \<Rightarrow> string option \<Rightarrow> chat \<Rightarrow> server
     \<Rightarrow> string + (chat \<times> server)" where
  "markAsRead e k cid userId messageId c s =
     (case markAsRead_doc e userId messageId c of
        Inl err \<Rightarrow> Inl err
      | Inr c1 \<Rightarrow> save_chat e k cid c1 s)"

definition updateTypingStatus ::
  "env \<Rightarrow> nat \<Rightarrow> object_id \<Rightarrow> object_id \<Rightarrow> bool \<Rightarrow> chat \<Rightarrow> server \<Rightarrow> string + (chat \<times> server)" where
  "updateTypingStatus e k cid userId flag c s =
     (case updateTypingStatus_doc userId flag c of
        Inl err \<Rightarrow> Inl err
      | Inr c1 \<Rightarrow> save_chat e k cid c1 s)"

section \<open>Events\<close>

datatype user_ref =
    UserCard object_id string string string string
  | UserTag object_id string

definition user_card :: "user \<Rightarrow> user_ref" where
  "user_card u = UserCard (uid u) (username u) (firstName u) (lastName u) (avatar u)"

definition user_tag :: "user \<Rightarrow> user_ref" where
  "user_tag u = UserTag (uid u) (username u)"

text \<open>
  The inbound events with the fields of their payload; a field may be missing. A client
  may also emit an event with no payload at all (or with \<^verbatim>\<open>null\<close>): \<open>NoPayload\<close> with
  the name of the event.
\<close>

datatype event_name =
    JoinProjectEvent
  | LeaveProjectEvent
  | JoinWhiteboardEvent
  | WhiteboardElementAddEvent
  | WhiteboardElementUpdateEvent
  | WhiteboardElementRemoveEvent
  | WhiteboardCursorUpdateEvent
  | JoinChatEvent
  | ChatMessageEvent
  | ChatTypingStartEvent
  | ChatTypingStopEvent
  | ChatMessageReadEvent
  | UserPresenceUpdateEvent

datatype inbound =
    JoinProject "string option"
  | LeaveProject "string option"
  | JoinWhiteboard "string option"
  | WhiteboardElementAdd "string option" "element_data option"
  | WhiteboardElementUpdate "string option" "string option" "element_updates option"
  | WhiteboardElementRemove "string option" "string option"
  | WhiteboardCursorUpdate "string option" "cursor option"
  | JoinChat "string option"
  | ChatMessage "string option" "string option" "string option" "attachment list option"
  | ChatTypingStart "string option"
  | ChatTypingStop "string option"
  | ChatMessageRead "string option" "string option"
  | UserPresenceUpdate "string option" "string option"
  | NoPayload event_name
  | Disconnect

datatype outbound =
    ErrorEvent string
  | UserJoinedProject user_ref nat
  | UserLeftProject user_ref nat
  | WhiteboardState whiteboard
  | UserJoinedWhiteboard user_ref
  | UserLeftWhiteboard user_ref
  | WhiteboardElementAdded element_data user_ref
  | WhiteboardElementUpdated string element_updates user_ref
  | WhiteboardElementRemoved string user_ref
  | WhiteboardCursorUpdated user_ref cursor
  | ChatHistory chat "message list"
  | UserJoinedChat user_ref
  | ChatMessageReceived message user_ref
  | UserTyping user_ref bool
  | MessageRead "string option" user_ref nat
  | UserPresenceChanged user_ref "string option" nat

text \<open>
  What a handler sends: \<^verbatim>\<open>socket.emit\<close> to the socket itself, \<^verbatim>\<open>socket.to(room).emit\<close> to
  the room's members other than the socket, \<^verbatim>\<open>io.to(room).emit\<close> to every member of the
  room; \<^verbatim>\<open>console.error\<close> writes to the server's log only. An exception that no
  \<^verbatim>\<open>catch\<close> takes is \<open>Uncaught\<close>: it reaches no client.
\<close>

datatype emission =
    Emit nat outbound
  | ToOthers nat string outbound
  | ToAll string outbound
  | ConsoleError string string
  | Uncaught string

fun recipients :: "(string \<Rightarrow> nat set) \<Rightarrow> emission \<Rightarrow> nat set" where
  "recipients rs (Emit sid ev) = {sid}"
| "recipients rs (ToOthers sid r ev) = rs r - {sid}"
| "recipients rs (ToAll r ev) = rs r"
| "recipients rs (ConsoleError a b) = {}"
| "recipients rs (Uncaught a) = {}"

section \<open>The handlers\<close>

text \<open>
  Each handler takes the environment of the call, the connection id, the socket as the
  closure sees it, the payload and the server, and returns the server with what was
  sent. The payload is the tuple of the fields the handler destructures, or \<open>None\<close> when
  the client sent none: then the destructuring throws a \<^verbatim>\<open>TypeError\<close>. A rejected storage
  call or a throw inside \<^verbatim>\<open>try\<close> lands in the handler's \<^verbatim>\<open>catch\<close>. The handlers of
  \<^verbatim>\<open>leave-project\<close> and \<^verbatim>\<open>user-presence-update\<close> have no \<^verbatim>\<open>try\<close>: their throw is taken by
  nothing, and the process ends with every connection.
\<close>

definition no_data :: string where
  "no_data = ''TypeError: Cannot destructure property of data''"

definition crash :: "string \<Rightarrow> server \<Rightarrow> server \<times> emission list" where
  "crash err s = (s\<lparr>sockets := Map.empty, rooms := (\<lambda>_. {})\<rparr>, [Uncaught err])"

definition failed :: "nat \<Rightarrow> string \<Rightarrow> string \<Rightarrow> string \<Rightarrow> emission list" where
  "failed sid logged err msg = [ConsoleError logged err, Emit sid (ErrorEvent msg)]"

definition join_project :: "env \<Rightarrow> nat \<Rightarrow> socket \<Rightarrow> string option option \<Rightarrow> server \<Rightarrow> server \<times> emission list" where
  "join_project e sid sock data s =
     (case data of
        None \<Rightarrow> (s, failed sid ''Error joining project:'' no_data ''Failed to join project'')
      | Some pid \<Rightarrow>
        (if falsy pid then (s, [Emit sid (ErrorEvent ''Project ID is required'')])
         else (let p = the pid; room = ''project_'' @ p in
               (join sid (''user_projects_'' @ uid (sock_user sock))
                  (set_sock sid (\<lambda>k. k\<lparr>projectId := Some p\<rparr>) (join sid room s)),
                [ToOthers sid room (UserJoinedProject (user_card (sock_user sock)) (now e))]))))"

definition leave_project :: "env \<Rightarrow> nat \<Rightarrow> socket \<Rightarrow> string option option \<Rightarrow> server \<Rightarrow> server \<times> emission list" where
  "leave_project e sid sock data s =
     (case data of
        None \<Rightarrow> crash no_data s
      | Some pid \<Rightarrow>
        (if \<not> falsy pid \<and> projectId sock = pid
         then (let room = ''project_'' @ the pid in
               (set_sock sid (\<lambda>k. k\<lparr>projectId := None\<rparr>) (leave sid room s),
                [ToOthers sid room (UserLeftProject (user_tag (sock_user sock)) (now e))]))
         else (s, [])))"

definition join_whiteboard :: "env \<Rightarrow> nat \<Rightarrow> socket \<Rightarrow> string option option \<Rightarrow> server \<Rightarrow> server \<times> emission list" where
  "join_whiteboard e sid sock data s =
     (case data of
        None \<Rightarrow> (s, failed sid ''Error joining whiteboard:'' no_data ''Failed to join whiteboard'')
      | Some wid \<Rightarrow>
        (if falsy wid then (s, [Emit sid (ErrorEvent ''Whiteboard ID is required'')])
         else (let w = the wid; room = ''whiteboard_'' @ w;
                   s1 = set_sock sid (\<lambda>k. k\<lparr>whiteboardId := Some w\<rparr>) (join sid room s);
                   caught = failed sid ''Error joining whiteboard:''
               in case find_whiteboard e 0 w s1 of
                    Inl err \<Rightarrow> (s1, caught err ''Failed to join whiteboard'')
                  | Inr None \<Rightarrow> (s1, [])
                  | Inr (Some wb) \<Rightarrow>
                      (case updateCollaboratorCursor e 1 w (uid (sock_user sock)) (0, 0) wb s1 of
                         Inl err \<Rightarrow> (s1, caught err ''Failed to join whiteboard'')
                       | Inr (wb', s2) \<Rightarrow>
                           (s2, [Emit sid (WhiteboardState wb'),
                                 ToOthers sid room (UserJoinedWhiteboard (user_card (sock_user sock)))])))))"

definition whiteboard_element_add ::
  "env \<Rightarrow> nat \<Rightarrow> socket \<Rightarrow> (string option \<times> element_data option) option \<Rightarrow> server \<Rightarrow> server \<times> emission list" where
  "whiteboard_element_add e sid sock data s =
     (case data of
        None \<Rightarrow> (s, failed sid ''Error adding whiteboard element:'' no_data ''Failed to add element'')
      | Some (wid, el) \<Rightarrow>
        (if falsy wid \<or> el = None
         then (s, [Emit sid (ErrorEvent ''Invalid data for adding element'')])
         else (let w = the wid; room = ''whiteboard_'' @ w;
                   caught = failed sid ''Error adding whiteboard element:''
               in case find_whiteboard e 0 w s of
                    Inl err \<Rightarrow> (s, caught err ''Failed to add element'')
                  | Inr None \<Rightarrow> (s, [])
                  | Inr (Some wb) \<Rightarrow>
                      (let d = (the el)\<lparr>ed_createdBy := Some (uid (sock_user sock))\<rparr> in
                       case addElement e 1 w d wb s of
                         Inl err \<Rightarrow> (s, caught err ''Failed to add element'')
                       | Inr (_, s') \<Rightarrow>
                           (s', [ToOthers sid room
                                   (WhiteboardElementAdded d (user_tag (sock_user sock)))])))))"

definition whiteboard_element_update ::
  "env \<Rightarrow> nat \<Rightarrow> socket \<Rightarrow> (string option \<times> string option \<times> element_updates option) option \<Rightarrow> server \<Rightarrow> server \<times> emission list" where
  "whiteboard_element_update e sid sock data s =
     (case data of
        None \<Rightarrow> (s, failed sid ''Error updating whiteboard element:'' no_data ''Failed to update element'')
      | Some (wid, elementId, updates) \<Rightarrow>
        (if falsy wid \<or> falsy elementId \<or> updates = None
         then (s, [Emit sid (ErrorEvent ''Invalid data for updating element'')])
         else (let w = the wid; room = ''whiteboard_'' @ w;
                   caught = failed sid ''Error updating whiteboard element:''
               in case find_whiteboard e 0 w s of
                    Inl err \<Rightarrow> (s, caught err ''Failed to update element'')
                  | Inr None \<Rightarrow> (s, [])
                  | Inr (Some wb) \<Rightarrow>
                      (case updateElement e 1 w (the elementId) (the updates) wb s of
                         Inl err \<Rightarrow> (s, caught err ''Failed to update element'')
                       | Inr (_, s') \<Rightarrow>
                           (s', [ToOthers sid room
                                   (WhiteboardElementUpdated (the elementId) (the updates)
                                      (user_tag (sock_user sock)))])))))"

definition whiteboard_element_remove ::
  "env \<Rightarrow> nat \<Rightarrow> socket \<Rightarrow> (string option \<times> string option) option \<Rightarrow> server \<Rightarrow> server \<times> emission list" where
  "whiteboard_element_remove e sid sock data s =
     (case data of
        None \<Rightarrow> (s, failed sid ''Error removing whiteboard element:'' no_data ''Failed to remove element'')
      | Some (wid, elementId) \<Rightarrow>
        (if falsy wid \<or> falsy elementId
         then (s, [Emit sid (ErrorEvent ''Invalid data for removing element'')])
         else (let w = the wid; room = ''whiteboard_'' @ w;
                   caught = failed sid ''Error removing whiteboard element:''
               in case find_whiteboard e 0 w s of
                    Inl err \<Rightarrow> (s, caught err ''Failed to remove element'')
                  | Inr None \<Rightarrow> (s, [])
                  | Inr (Some wb) \<Rightarrow>
                      (case removeElement e 1 w (the elementId) wb s of
                         Inl err \<Rightarrow> (s, caught err ''Failed to remove element'')
                       | Inr (_, s') \<Rightarrow>
                           (s', [ToOthers sid room
                                   (WhiteboardElementRemoved (the elementId)
                                      (user_tag (sock_user sock)))])))))"

text \<open>The cursor, typing and read-receipt handlers return silently on a missing field,
  and their \<^verbatim>\<open>catch\<close> only logs.\<close>

definition whiteboard_cursor_update ::
  "env \<Rightarrow> nat \<Rightarrow> socket \<Rightarrow> (string option \<times> cursor option) option \<Rightarrow> server \<Rightarrow> server \<times> emission list" where
  "whiteboard_cursor_update e sid sock data s =
     (case data of
        None \<Rightarrow> (s, [ConsoleError ''Error updating cursor:'' no_data])
      | Some (wid, cur) \<Rightarrow>
        (if falsy wid \<or> cur = None then (s, [])
         else (let w = the wid; room = ''whiteboard_'' @ w in
               case find_whiteboard e 0 w s of
                 Inl err \<Rightarrow> (s, [ConsoleError ''Error updating cursor:'' err])
               | Inr None \<Rightarrow> (s, [])
               | Inr (Some wb) \<Rightarrow>
                   (case updateCollaboratorCursor e 1 w (uid (sock_user sock)) (the cur) wb s of
                      Inl err \<Rightarrow> (s, [ConsoleError ''Error updating cursor:'' err])
                    | Inr (_, s') \<Rightarrow>
                        (s', [ToOthers sid room
                                (WhiteboardCursorUpdated (user_card (sock_user sock)) (the cur))])))))"

definition join_chat :: "env \<Rightarrow> nat \<Rightarrow> socket \<Rightarrow> string option option \<Rightarrow> server \<Rightarrow> server \<times> emission list" where
  "join_chat e sid sock data s =
     (case data of
        None \<Rightarrow> (s, failed sid ''Error joining chat:'' no_data ''Failed to join chat'')
      | Some cid \<Rightarrow>
        (if falsy cid then (s, [Emit sid (ErrorEvent ''Chat ID is required'')])
         else (let c = the cid; room = ''chat_'' @ c;
                   s1 = set_sock sid (\<lambda>k. k\<lparr>chatId := Some c\<rparr>) (join sid room s)
               in case find_chat e 0 c s1 of
                    Inl err \<Rightarrow> (s1, failed sid ''Error joining chat:'' err ''Failed to join chat'')
                  | Inr None \<Rightarrow> (s1, [])
                  | Inr (Some ch) \<Rightarrow>
                      (s1, [Emit sid (ChatHistory ch (filter (\<lambda>m. \<not> isDeleted m) (messages ch))),
                            ToOthers sid room (UserJoinedChat (user_card (sock_user sock)))]))))"

definition chat_message ::
  "env \<Rightarrow> nat \<Rightarrow> socket \<Rightarrow> (string option \<times> string option \<times> string option \<times> attachment list option) option \<Rightarrow> server \<Rightarrow> server \<times> emission list" where
  "chat_message e sid sock data s =
     (case data of
        None \<Rightarrow> (s, failed sid ''Error sending chat message:'' no_data ''Failed to send message'')
      | Some (cid, body, ty, atts) \<Rightarrow>
        (if falsy cid \<or> falsy body then (s, [Emit sid (ErrorEvent ''Invalid message data'')])
         else (let c = the cid; room = ''chat_'' @ c;
                   caught = failed sid ''Error sending chat message:''
               in case find_chat e 0 c s of
                    Inl err \<Rightarrow> (s, caught err ''Failed to send message'')
                  | Inr None \<Rightarrow> (s, [])
                  | Inr (Some ch) \<Rightarrow>
                      (let messageData = \<lparr>md_id = None, md_sender = uid (sock_user sock),
                                          md_content = the body, md_type = opt_or ty ''text'',
                                          md_attachments = opt_or atts []\<rparr>
                       in case addMessage e 1 c messageData ch s of
                            Inl err \<Rightarrow> (s, caught err ''Failed to send message'')
                          | Inr (ch', s') \<Rightarrow>
                              (s', [ToAll room
                                      (ChatMessageReceived (last (messages ch'))
                                         (user_card (sock_user sock)))])))))"

text \<open>\<^verbatim>\<open>chat-typing-start\<close> and \<^verbatim>\<open>chat-typing-stop\<close> differ in the flag only.\<close>

definition chat_typing ::
  "bool \<Rightarrow> env \<Rightarrow> nat \<Rightarrow> socket \<Rightarrow> string option option \<Rightarrow> server \<Rightarrow> server \<times> emission list" where
  "chat_typing flag e sid sock data s =
     (case data of
        None \<Rightarrow> (s, [ConsoleError ''Error updating typing status:'' no_data])
      | Some cid \<Rightarrow>
        (if falsy cid then (s, [])
         else (let c = the cid; room = ''chat_'' @ c;
                   logged = (\<lambda>err. [ConsoleError ''Error updating typing status:'' err])
               in case find_chat e 0 c s of
                    Inl err \<Rightarrow> (s, logged err)
                  | Inr None \<Rightarrow> (s, [])
                  | Inr (Some ch) \<Rightarrow>
                      (case updateTypingStatus e 1 c (uid (sock_user sock)) flag ch s of
                         Inl err \<Rightarrow> (s, logged err)
                       | Inr (_, s') \<Rightarrow>
                           (s', [ToOthers sid room
                                   (UserTyping (user_tag (sock_user sock)) flag)])))))"

definition chat_message_read ::
  "env \<Rightarrow> nat \<Rightarrow> socket \<Rightarrow> (string option \<times> string option) option \<Rightarrow> server \<Rightarrow> server \<times> emission list" where
  "chat_message_read e sid sock data s =
     (case data of
        None \<Rightarrow> (s, [ConsoleError ''Error marking message as read:'' no_data])
      | Some (cid, messageId) \<Rightarrow>
        (if falsy cid then (s, [])
         else (let c = the cid; room = ''chat_'' @ c;
                   logged = (\<lambda>err. [ConsoleError ''Error marking message as read:'' err])
               in case find_chat e 0 c s of
                    Inl err \<Rightarrow> (s, logged err)
                  | Inr None \<Rightarrow> (s, [])
                  | Inr (Some ch) \<Rightarrow>
                      (case markAsRead e 1 c (uid (sock_user sock)) messageId ch s of
                         Inl err \<Rightarrow> (s, logged err)
                       | Inr (_, s') \<Rightarrow>
                           (s', [ToOthers sid room
                                   (MessageRead messageId (user_tag (sock_user sock)) (now e))])))))"

definition user_presence_update ::
  "env \<Rightarrow> nat \<Rightarrow> socket \<Rightarrow> (string option \<times> string option) option \<Rightarrow> server \<Rightarrow> server \<times> emission list" where
  "user_presence_update e sid sock data s =
     (case data of
        None \<Rightarrow> crash no_data s
      | Some (status, pid) \<Rightarrow>
        (if falsy pid then (s, [])
         else (s, [ToOthers sid (''project_'' @ the pid)
                     (UserPresenceChanged (user_card (sock_user sock)) status (now e))])))"


section \<open>Disconnect\<close>

text \<open>
  By the time \<^verbatim>\<open>disconnect\<close> fires the socket has left every room and is gone from the
  registry. The three cleanups follow one another inside a single \<^verbatim>\<open>try\<close>: a rejected
  storage call or a throw in one of them leaves the block, and the \<^verbatim>\<open>catch\<close> logs.
  Storage calls 0 and 1 are the whiteboard's, 2 and 3 the chat's.
\<close>

definition cleanup_whiteboard :: "env \<Rightarrow> nat \<Rightarrow> socket \<Rightarrow> server \<Rightarrow> string + (server \<times> emission list)" where
  "cleanup_whiteboard e sid sock s =
     (if falsy (whiteboardId sock) then Inr (s, [])
      else (let w = the (whiteboardId sock) in
            case find_whiteboard e 0 w s of
              Inl err \<Rightarrow> Inl err
            | Inr None \<Rightarrow> Inr (s, [])
            | Inr (Some wb) \<Rightarrow>
                (case removeCollaborator e 1 w (uid (sock_user sock)) wb s of
                   Inl err \<Rightarrow> Inl err
                 | Inr (_, s') \<Rightarrow>
                     Inr (s', [ToOthers sid (''whiteboard_'' @ w)
                                 (UserLeftWhiteboard (user_tag (sock_user sock)))]))))"

definition cleanup_chat :: "env \<Rightarrow> nat \<Rightarrow> socket \<Rightarrow> server \<Rightarrow> string + (server \<times> emission list)" where
  "cleanup_chat e sid sock s =
     (if falsy (chatId sock) then Inr (s, [])
      else (let c = the (chatId sock) in
            case find_chat e 2 c s of
              Inl err \<Rightarrow> Inl err
            | Inr None \<Rightarrow> Inr (s, [])
            | Inr (Some ch) \<Rightarrow>
                (case updateTypingStatus e 3 c (uid (sock_user sock)) False ch s of
                   Inl err \<Rightarrow> Inl err
                 | Inr (_, s') \<Rightarrow>
                     Inr (s', [ToOthers sid (''chat_'' @ c)
                                 (UserTyping (user_tag (sock_user sock)) False)]))))"

definition cleanup_project :: "env \<Rightarrow> nat \<Rightarrow> socket \<Rightarrow> emission list" where
  "cleanup_project e sid sock =
     (if falsy (projectId sock) then []
      else [ToOthers sid (''project_'' @ the (projectId sock))
              (UserLeftProject (user_tag (sock_user sock)) (now e))])"

definition drop_socket :: "nat \<Rightarrow> server \<Rightarrow> server" where
  "drop_socket sid s = s\<lparr>sockets := (sockets s)(sid := None), rooms := (\<lambda>r. rooms s r - {sid})\<rparr>"

definition disconnect :: "env \<Rightarrow> nat \<Rightarrow> socket \<Rightarrow> server \<Rightarrow> server \<times> emission list" where
  "disconnect e sid sock s =
     (let s0 = drop_socket sid s;
          logged = (\<lambda>err. ConsoleError ''Error cleaning up socket disconnect:'' err)
      in case cleanup_whiteboard e sid sock s0 of
           Inl err \<Rightarrow> (s0, [logged err])
         | Inr (s1, out1) \<Rightarrow>
             (case cleanup_chat e sid sock s1 of
                Inl err \<Rightarrow> (s1, out1 @ [logged err])
              | Inr (s2, out2) \<Rightarrow> (s2, out1 @ out2 @ cleanup_project e sid sock)))"

section \<open>Accepting connections and routing events\<close>

text \<open>
  A handshake the middleware refuses creates no socket: the client gets the error as a
  connection error. An accepted one creates the socket with the identity attached and
  joins it to the user's personal room (the room the library keeps for each socket under
  its own id is left out: no handler addresses it). Handlers are registered on the sockets created
  this way only, so an event for a connection id without a socket reaches none.
\<close>

definition connect :: "env \<Rightarrow> nat \<Rightarrow> handshake \<Rightarrow> server \<Rightarrow> server \<times> string option" where
  "connect e sid h s =
     (case authenticate e (users s) h of
        Inl err \<Rightarrow> (s, Some err)
      | Inr u \<Rightarrow>
          (join sid (''user_'' @ uid u)
             (s\<lparr>sockets := (sockets s)(sid \<mapsto>
                  \<lparr>sock_user = u, projectId = None, whiteboardId = None, chatId = None\<rparr>)\<rparr>),
           None))"

definition on_event :: "env \<Rightarrow> nat \<Rightarrow> inbound \<Rightarrow> server \<Rightarrow> server \<times> emission list" where
  "on_event e sid ev s =
     (case sockets s sid of
        None \<Rightarrow> (s, [])
      | Some sock \<Rightarrow>
          (case ev of
             JoinProject pid \<Rightarrow> join_project e sid sock (Some pid) s
           | LeaveProject pid \<Rightarrow> leave_project e sid sock (Some pid) s
           | JoinWhiteboard wid \<Rightarrow> join_whiteboard e sid sock (Some wid) s
           | WhiteboardElementAdd wid el \<Rightarrow> whiteboard_element_add e sid sock (Some (wid, el)) s
           | WhiteboardElementUpdate wid eid u \<Rightarrow>
               whiteboard_element_update e sid sock (Some (wid, eid, u)) s
           | WhiteboardElementRemove wid eid \<Rightarrow>
               whiteboard_element_remove e sid sock (Some (wid, eid)) s
           | WhiteboardCursorUpdate wid cur \<Rightarrow>
               whiteboard_cursor_update e sid sock (Some (wid, cur)) s
           | JoinChat cid \<Rightarrow> join_chat e sid sock (Some cid) s
           | ChatMessage cid body ty atts \<Rightarrow> chat_message e sid sock (Some (cid, body, ty, atts)) s
           | ChatTypingStart cid \<Rightarrow> chat_typing True e sid sock (Some cid) s
           | ChatTypingStop cid \<Rightarrow> chat_typing False e sid sock (Some cid) s
           | ChatMessageRead cid mid \<Rightarrow> chat_message_read e sid sock (Some (cid, mid)) s
           | UserPresenceUpdate status pid \<Rightarrow>
               user_presence_update e sid sock (Some (status, pid)) s
           | NoPayload n \<Rightarrow>
               (case n of
                  JoinProjectEvent \<Rightarrow> join_project e sid sock None s
                | LeaveProjectEvent \<Rightarrow> leave_project e sid sock None s
                | JoinWhiteboardEvent \<Rightarrow> join_whiteboard e sid sock None s
                | WhiteboardElementAddEvent \<Rightarrow> whiteboard_element_add e sid sock None s
                | WhiteboardElementUpdateEvent \<Rightarrow> whiteboard_element_update e sid sock None s
                | WhiteboardElementRemoveEvent \<Rightarrow> whiteboard_element_remove e sid sock None s
                | WhiteboardCursorUpdateEvent \<Rightarrow> whiteboard_cursor_update e sid sock None s
                | JoinChatEvent \<Rightarrow> join_chat e sid sock None s
                | ChatMessageEvent \<Rightarrow> chat_message e sid sock None s
                | ChatTypingStartEvent \<Rightarrow> chat_typing True e sid sock None s
                | ChatTypingStopEvent \<Rightarrow> chat_typing False e sid sock None s
                | ChatMessageReadEvent \<Rightarrow> chat_message_read e sid sock None s
                | UserPresenceUpdateEvent \<Rightarrow> user_presence_update e sid sock None s)
           | Disconnect \<Rightarrow> disconnect e sid sock s))"

text \<open>The servers that connections and events can produce from one without sockets.\<close>

inductive reachable :: "server \<Rightarrow> bool" where
  start: "sockets s = Map.empty \<Longrightarrow> reachable s"
| accept: "reachable s \<Longrightarrow> sockets s sid = None \<Longrightarrow> reachable (fst (connect e sid h s))"
| event: "reachable s \<Longrightarrow> reachable (fst (on_event e sid ev s))"

text \<open>
  The same servers together with the record of admissions: for each connection id, the
  environment and the handshake of the connect that last created a socket under it.
\<close>

inductive traced :: "server \<Rightarrow> (nat \<rightharpoonup> env \<times> handshake) \<Rightarrow> bool" where
  start: "sockets s = Map.empty \<Longrightarrow> traced s Map.empty"
| accept: "traced s g \<Longrightarrow> sockets s sid = None \<Longrightarrow> connect e sid h s = (s', None)
           \<Longrightarrow> traced s' (g(sid \<mapsto> (e, h)))"
| refuse: "traced s g \<Longrightarrow> sockets s sid = None \<Longrightarrow> connect e sid h s = (s', Some err)
           \<Longrightarrow> traced s' g"
| event: "traced s g \<Longrightarrow> traced (fst (on_event e sid ev s)) g"


section \<open>Notions used by the properties\<close>

text \<open>Two servers agree on the user store and every socket of the second carries the
  identity the same socket carries in the first.\<close>

definition same_identities :: "server \<Rightarrow> server \<Rightarrow> bool" where
  "same_identities s s' =
     (users s' = users s \<and>
      (\<forall>sid sock'. sockets s' sid = Some sock' \<longrightarrow>
         (\<exists>sock. sockets s sid = Some sock \<and> sock_user sock' = sock_user sock)))"

text \<open>
  Every socket carries the identity that the verifier of its own handshake resolved the
  token of that handshake to, and the identity is active.
\<close>

definition bound_to_handshake :: "server \<Rightarrow> (nat \<rightharpoonup> env \<times> handshake) \<Rightarrow> bool" where
  "bound_to_handshake s g =
     (\<forall>sid sock. sockets s sid = Some sock \<longrightarrow>
        (\<exists>e h t i. g sid = Some (e, h) \<and> handshake_token h = Some t \<and> t \<noteq> [] \<and>
                   jwt_verify e t = Payload (Some i) \<and>
                   users s i = Some (sock_user sock) \<and> isActive (sock_user sock)))"

text \<open>What a handler puts on the wire: its emissions without the log entries.\<close>

fun is_log :: "emission \<Rightarrow> bool" where
  "is_log (ConsoleError a b) = True"
| "is_log (Uncaught a) = True"
| "is_log em = False"

definition sent :: "emission list \<Rightarrow> emission list" where
  "sent out = filter (\<lambda>em. \<not> is_log em) out"

text \<open>A broadcast is an emission to a room.\<close>

fun is_broadcast :: "emission \<Rightarrow> bool" where
  "is_broadcast (ToOthers c r ev) = True"
| "is_broadcast (ToAll r ev) = True"
| "is_broadcast em = False"

text \<open>
  The field each handler's guard tests before it does anything: the payload lacks a
  required field when the guard finds one absent or empty, and when there is no payload.
  (\<^verbatim>\<open>user-presence-update\<close> tests its project id only and passes the status on unread.)
\<close>

fun lacks_required :: "inbound \<Rightarrow> bool" where
  "lacks_required (JoinProject pid) = falsy pid"
| "lacks_required (LeaveProject pid) = falsy pid"
| "lacks_required (JoinWhiteboard wid) = falsy wid"
| "lacks_required (WhiteboardElementAdd wid el) = (falsy wid \<or> el = None)"
| "lacks_required (WhiteboardElementUpdate wid eid u) = (falsy wid \<or> falsy eid \<or> u = None)"
| "lacks_required (WhiteboardElementRemove wid eid) = (falsy wid \<or> falsy eid)"
| "lacks_required (WhiteboardCursorUpdate wid cur) = (falsy wid \<or> cur = None)"
| "lacks_required (JoinChat cid) = falsy cid"
| "lacks_required (ChatMessage cid body ty atts) = (falsy cid \<or> falsy body)"
| "lacks_required (ChatTypingStart cid) = falsy cid"
| "lacks_required (ChatTypingStop cid) = falsy cid"
| "lacks_required (ChatMessageRead cid mid) = falsy cid"
| "lacks_required (UserPresenceUpdate status pid) = falsy pid"
| "lacks_required (NoPayload n) = True"
| "lacks_required Disconnect = False"

text \<open>The events whose handler answers a missing field with an \<^verbatim>\<open>error\<close>, and the message
  it sends: the guard's message when the payload is there, the message of the \<^verbatim>\<open>catch\<close>
  when it is not. The handlers of the other events send nothing.\<close>

fun rejection :: "inbound \<Rightarrow> string option" where
  "rejection (JoinProject pid) = Some ''Project ID is required''"
| "rejection (JoinWhiteboard wid) = Some ''Whiteboard ID is required''"
| "rejection (WhiteboardElementAdd wid el) = Some ''Invalid data for adding element''"
| "rejection (WhiteboardElementUpdate wid eid u) = Some ''Invalid data for updating element''"
| "rejection (WhiteboardElementRemove wid eid) = Some ''Invalid data for removing element''"
| "rejection (JoinChat cid) = Some ''Chat ID is required''"
| "rejection (ChatMessage cid body ty atts) = Some ''Invalid message data''"
| "rejection (NoPayload JoinProjectEvent) = Some ''Failed to join project''"
| "rejection (NoPayload JoinWhiteboardEvent) = Some ''Failed to join whiteboard''"
| "rejection (NoPayload WhiteboardElementAddEvent) = Some ''Failed to add element''"
| "rejection (NoPayload WhiteboardElementUpdateEvent) = Some ''Failed to update element''"
| "rejection (NoPayload WhiteboardElementRemoveEvent) = Some ''Failed to remove element''"
| "rejection (NoPayload JoinChatEvent) = Some ''Failed to join chat''"
| "rejection (NoPayload ChatMessageEvent) = Some ''Failed to send message''"
| "rejection ev = None"

text \<open>The two events whose handler destructures the payload outside any \<^verbatim>\<open>try\<close>, sent
  without a payload.\<close>

fun unguarded :: "inbound \<Rightarrow> bool" where
  "unguarded (NoPayload LeaveProjectEvent) = True"
| "unguarded (NoPayload UserPresenceUpdateEvent) = True"
| "unguarded ev = False"

text \<open>An edit that carries new content only.\<close>

definition content_edit :: "string \<Rightarrow> message_updates" where
  "content_edit t = \<lparr>mu_id = None, mu_content = Some t, mu_type = None, mu_isDeleted = None\<rparr>"

section \<open>Example data\<close>

text \<open>Three identities, the third deactivated; an environment whose verifier knows one
  token for each of them and one expired token; a whiteboard with one element and a chat
  with one message, which is deleted. The coordinates of the examples are doubles written
  by their bits; no property reads them.\<close>

definition alice :: user where
  "alice = \<lparr>uid = ''u1'', username = ''alice'', firstName = ''Alice'', lastName = ''Ames'',
            avatar = ''a.png'', isActive = True\<rparr>"

definition bob :: user where
  "bob = \<lparr>uid = ''u2'', username = ''bob'', firstName = ''Bob'', lastName = ''Beck'',
          avatar = ''b.png'', isActive = True\<rparr>"

definition carol :: user where
  "carol = \<lparr>uid = ''u3'', username = ''carol'', firstName = ''Carol'', lastName = ''Cole'',
            avatar = ''c.png'', isActive = False\<rparr>"

definition demo_verify :: "string \<Rightarrow> jwt_outcome" where
  "demo_verify t =
     (if t = ''tok-alice'' then Payload (Some ''u1'')
      else if t = ''tok-bob'' then Payload (Some ''u2'')
      else if t = ''tok-carol'' then Payload (Some ''u3'')
      else if t = ''tok-old'' then TokenExpired
      else InvalidSignature)"

definition demo_env :: env where
  "demo_env = \<lparr>now = 1700, rnd = ''k3j9x2m1q'', jwt_verify = demo_verify, db_fault = (\<lambda>_. False)\<rparr>"

definition demo_board :: whiteboard where
  "demo_board =
     \<lparr>wb_project = ''p1'', wb_name = ''Sketch'', wb_createdBy = ''u1'',
      elements = [\<lparr>el_id = ''e1'', el_type = Some ''rectangle'', pos_x = Some 10, pos_y = Some 20,
                    size_width = Some hundred, size_height = Some hundred, el_text = None,
                    rotation = 0,
                    zIndex = 0, el_createdBy = Some ''u1'', el_createdAt = 1000,
                    el_updatedAt = 1000\<rparr>],
      collaborators = [\<lparr>collab_user = ''u1'', collab_cursor = (0, 0), lastActive = 1500\<rparr>],
      version = 2, wb_isArchived = False\<rparr>"

definition demo_message :: message where
  "demo_message =
     \<lparr>msg_id = ''m1'', sender = ''u2'', content = ''hello'', msg_type = ''text'',
      attachments = [], reactions = [], readBy = [], isEdited = False, editedAt = None,
      isDeleted = True, deletedAt = Some 1200, msg_createdAt = 1100\<rparr>"

definition demo_chat :: chat where
  "demo_chat =
     \<lparr>chat_project = ''p1'', chat_name = ''General'',
      participants = [\<lparr>part_user = ''u2'', part_role = ''member'', joinedAt = 900,
                        lastRead = 1100, isTyping = False\<rparr>],
      messages = [demo_message], lastActivity = 1200, chat_isArchived = False\<rparr>"

text \<open>A store without connections, and a server where alice (connection 11) and bob
  (connection 12) have joined project \<open>p1\<close>, whiteboard \<open>w1\<close> and chat \<open>c1\<close>; alice is
  not a participant of the chat document.\<close>

definition demo_store :: server where
  "demo_store =
     \<lparr>sockets = Map.empty, rooms = (\<lambda>_. {}),
      users = [''u1'' \<mapsto> alice, ''u2'' \<mapsto> bob, ''u3'' \<mapsto> carol],
      whiteboards = [''w1'' \<mapsto> demo_board],
      chats = [''c1'' \<mapsto> demo_chat]\<rparr>"

definition demo_server :: server where
  "demo_server =
     demo_store
       \<lparr>sockets :=
          [11 \<mapsto> \<lparr>sock_user = alice, projectId = Some ''p1'', whiteboardId = Some ''w1'',
                   chatId = Some ''c1''\<rparr>,
           12 \<mapsto> \<lparr>sock_user = bob, projectId = Some ''p1'', whiteboardId = Some ''w1'',
                   chatId = Some ''c1''\<rparr>],
        rooms := (\<lambda>r. if r \<in> {''project_p1'', ''whiteboard_w1'', ''chat_c1''} then {11, 12}
                       else if r \<in> {''user_u1'', ''user_projects_u1''} then {11}
                       else if r \<in> {''user_u2'', ''user_projects_u2''} then {12}
                       else {})\<rparr>"

definition alice_socket :: socket where
  "alice_socket = \<lparr>sock_user = alice, projectId = Some ''p1'', whiteboardId = Some ''w1'',
                    chatId = Some ''c1''\<rparr>"

definition bob_socket :: socket where
  "bob_socket = \<lparr>sock_user = bob, projectId = Some ''p1'', whiteboardId = Some ''w1'',
                  chatId = Some ''c1''\<rparr>"

definition absent_id :: object_id where
  "absent_id = ''5f1a2b3c4d5e6f7a8b9c0d1e''"

definition no_updates :: element_updates where
  "no_updates = \<lparr>eu_id = None, eu_type = None, eu_position = Some (Some 5, Some 6),
                  eu_size = None, eu_content = None, eu_rotation = None, eu_zIndex = None\<rparr>"

text \<open>A handshake without a token and one with alice's.\<close>

definition bare :: handshake where
  "bare = \<lparr>auth_token = None, authorization = Some ''Bearer''\<rparr>"

definition good :: handshake where
  "good = \<lparr>auth_token = Some ''tok-alice'', authorization = None\<rparr>"

text \<open>Bob's message to the chat, and the message as it is stored.\<close>

definition hi_from_bob :: inbound where
  "hi_from_bob = ChatMessage (Some ''c1'') (Some ''hi'') None None"

definition hi_message :: message where
  "hi_message =
     \<lparr>msg_id = ''msg_1700_k3j9x2m1q'', sender = ''u2'', content = ''hi'', msg_type = ''text'',
      attachments = [], reactions = [], readBy = [], isEdited = False, editedAt = None,
      isDeleted = False, deletedAt = None, msg_createdAt = 1700\<rparr>"

text \<open>The environment of the examples with the first storage call failing.\<close>

definition faulty_env :: env where
  "faulty_env = demo_env\<lparr>db_fault := (\<lambda>k. k = 0)\<rparr>"

text \<open>The server after the whiteboard cleanup of alice, and after the whiteboard and the
  chat cleanup of bob.\<close>

definition alice_gone :: server where
  "alice_gone =
     (drop_socket 11 demo_server)
       \<lparr>whiteboards := (whiteboards demo_server)(''w1'' \<mapsto> demo_board\<lparr>collaborators := []\<rparr>)\<rparr>"

definition bob_half_gone :: server where
  "bob_half_gone =
     (drop_socket 12 demo_server)\<lparr>whiteboards := (whiteboards demo_server)(''w1'' \<mapsto> demo_board)\<rparr>"

definition bob_gone :: server where
  "bob_gone = bob_half_gone\<lparr>chats := (chats demo_server)(''c1'' \<mapsto> demo_chat)\<rparr>"

text \<open>Two adds of an element under the client id \<open>dup\<close>, and an add without an id.\<close>

definition add_dup :: inbound where
  "add_dup =
     WhiteboardElementAdd (Some ''w1'')
       (Some \<lparr>ed_id = Some ''dup'', ed_type = Some ''circle'', ed_x = Some 1, ed_y = Some 2,
              ed_width = None, ed_height = None, ed_text = None, ed_rotation = None,
              ed_zIndex = None, ed_createdBy = None\<rparr>)"

definition add_fresh :: element_data where
  "add_fresh =
     \<lparr>ed_id = None, ed_type = Some ''circle'', ed_x = Some 1, ed_y = Some 2,
      ed_width = None, ed_height = None, ed_text = None, ed_rotation = None,
      ed_zIndex = None, ed_createdBy = None\<rparr>"

definition dup_element :: "object_id \<Rightarrow> element" where
  "dup_element who =
     \<lparr>el_id = ''dup'', el_type = Some ''circle'', pos_x = Some 1, pos_y = Some 2,
      size_width = Some hundred, size_height = Some hundred, el_text = None, rotation = 0,
      zIndex = 0, el_createdBy = Some who, el_createdAt = 1700, el_updatedAt = 1700\<rparr>"

definition board_once :: whiteboard where
  "board_once = demo_board\<lparr>elements := elements demo_board @ [dup_element ''u1''], version := 3\<rparr>"

definition board_twice :: whiteboard where
  "board_twice =
     demo_board\<lparr>elements := elements demo_board @ [dup_element ''u1'', dup_element ''u2''],
                version := 4\<rparr>"

definition added_once :: server where
  "added_once = demo_server\<lparr>whiteboards := (whiteboards demo_server)(''w1'' \<mapsto> board_once)\<rparr>"

definition added_twice :: server where
  "added_twice = demo_server\<lparr>whiteboards := (whiteboards demo_server)(''w1'' \<mapsto> board_twice)\<rparr>"

text \<open>The chat after an edit of its deleted message.\<close>

definition edited_chat :: chat where
  "edited_chat =
     demo_chat\<lparr>messages := [demo_message\<lparr>content := ''edited'', isEdited := True,
                                           editedAt := Some 1700\<rparr>],
               lastActivity := 1700\<rparr>"

text \<open>Alice connects to the store of the examples, joins project \<open>p1\<close> and then the
  room of chat \<open>c1\<close>, of which she is no participant.\<close>

definition alice_connected :: server where
  "alice_connected = fst (connect demo_env 11 good demo_store)"

definition alice_in_project :: server where
  "alice_in_project = fst (on_event demo_env 11 (JoinProject (Some ''p1'')) alice_connected)"

definition alice_in_chat :: server where
  "alice_in_chat = fst (on_event demo_env 11 (JoinChat (Some ''c1'')) alice_in_project)"

definition alice_visiting :: socket where
  "alice_visiting = \<lparr>sock_user = alice, projectId = Some ''p1'', whiteboardId = None,
                       chatId = Some ''c1''\<rparr>"

section \<open>The handshake gate\<close>

lemmas store_defs = find_whiteboard_def find_chat_def findById_def save_whiteboard_def
  save_chat_def set_sock_def join_def leave_def drop_socket_def failed_def crash_def

lemmas method_defs = addElement_def updateElement_def removeElement_def
  updateCollaboratorCursor_def removeCollaborator_def addMessage_def updateMessage_def
  deleteMessage_def markAsRead_def updateTypingStatus_def

lemma join_project_same: "same_identities s (fst (join_project e sid sock data s))"
  by (auto simp: same_identities_def join_project_def Let_def store_defs method_defs
           split: option.splits sum.splits)

lemma leave_project_same: "same_identities s (fst (leave_project e sid sock data s))"
  by (auto simp: same_identities_def leave_project_def Let_def store_defs method_defs
           split: option.splits sum.splits)

lemma join_whiteboard_same: "same_identities s (fst (join_whiteboard e sid sock data s))"
  by (auto simp: same_identities_def join_whiteboard_def Let_def store_defs method_defs
           split: option.splits sum.splits)

lemma whiteboard_element_add_same: "same_identities s (fst (whiteboard_element_add e sid sock data s))"
  by (auto simp: same_identities_def whiteboard_element_add_def Let_def store_defs method_defs
           split: option.splits sum.splits)

lemma whiteboard_element_update_same: "same_identities s (fst (whiteboard_element_update e sid sock data s))"
  by (auto simp: same_identities_def whiteboard_element_update_def Let_def store_defs method_defs
           split: option.splits sum.splits)

lemma whiteboard_element_remove_same: "same_identities s (fst (whiteboard_element_remove e sid sock data s))"
  by (auto simp: same_identities_def whiteboard_element_remove_def Let_def store_defs method_defs
           split: option.splits sum.splits)

lemma whiteboard_cursor_update_same: "same_identities s (fst (whiteboard_cursor_update e sid sock data s))"
  by (auto simp: same_identities_def whiteboard_cursor_update_def Let_def store_defs method_defs
           split: option.splits sum.splits)

lemma join_chat_same: "same_identities s (fst (join_chat e sid sock data s))"
  by (auto simp: same_identities_def join_chat_def Let_def store_defs method_defs
           split: option.splits sum.splits)

lemma chat_message_same: "same_identities s (fst (chat_message e sid sock data s))"
  by (auto simp: same_identities_def chat_message_def Let_def store_defs method_defs
           split: option.splits sum.splits)

lemma chat_message_read_same: "same_identities s (fst (chat_message_read e sid sock data s))"
  by (auto simp: same_identities_def chat_message_read_def Let_def store_defs method_defs
           split: option.splits sum.splits)

lemma user_presence_update_same: "same_identities s (fst (user_presence_update e sid sock data s))"
  by (auto simp: same_identities_def user_presence_update_def Let_def store_defs method_defs
           split: option.splits sum.splits)

lemma chat_typing_same: "same_identities s (fst (chat_typing f e sid sock data s))"
  by (auto simp: same_identities_def chat_typing_def Let_def store_defs method_defs
           split: option.splits sum.splits)

lemma disconnect_same: "same_identities s (fst (disconnect e sid sock s))"
  by (auto simp: same_identities_def disconnect_def cleanup_whiteboard_def cleanup_chat_def
                 Let_def store_defs method_defs
           split: option.splits sum.splits if_splits)

lemmas handlers_same = join_project_same leave_project_same join_whiteboard_same
  whiteboard_element_add_same whiteboard_element_update_same whiteboard_element_remove_same
  whiteboard_cursor_update_same join_chat_same chat_message_same chat_typing_same
  chat_message_read_same user_presence_update_same disconnect_same

lemma on_event_same: "same_identities s (fst (on_event e sid ev s))"
proof (cases "sockets s sid")
  case None
  then show ?thesis by (simp add: on_event_def same_identities_def)
next
  case (Some sock)
  show ?thesis
  proof (cases ev)
    case (NoPayload n)
    with Some show ?thesis by (cases n) (simp_all add: on_event_def handlers_same)
  qed (use Some in \<open>simp_all add: on_event_def handlers_same\<close>)
qed

lemma authenticate_accepts:
  "authenticate e us h = Inr u \<Longrightarrow>
     isActive u \<and> (\<exists>t i. handshake_token h = Some t \<and> t \<noteq> [] \<and> jwt_verify e t = Payload (Some i) \<and> us i = Some u)"
  unfolding authenticate_def falsy_def Let_def findById_def
  by (cases "handshake_token h"; cases "jwt_verify e (the (handshake_token h))")
     (auto split: option.splits if_splits sum.splits)

lemma authenticate_refuses:
  assumes "falsy (handshake_token h) \<or>
           (\<exists>t. handshake_token h = Some t \<and>
                (jwt_verify e t = InvalidSignature \<or> jwt_verify e t = TokenExpired \<or>
                 (\<exists>k. jwt_verify e t = Payload k \<and>
                      (case k of None \<Rightarrow> True
                       | Some i \<Rightarrow> (case us i of None \<Rightarrow> True | Some u \<Rightarrow> \<not> isActive u)))))"
  shows "\<exists>msg. authenticate e us h = Inl msg"
proof (cases "falsy (handshake_token h)")
  case True
  then show ?thesis by (simp add: authenticate_def)
next
  case False
  with assms obtain t where t: "handshake_token h = Some t"
    and d: "jwt_verify e t = InvalidSignature \<or> jwt_verify e t = TokenExpired \<or>
                 (\<exists>k. jwt_verify e t = Payload k \<and>
                      (case k of None \<Rightarrow> True
                       | Some i \<Rightarrow> (case us i of None \<Rightarrow> True | Some u \<Rightarrow> \<not> isActive u)))"
    by blast
  show ?thesis
  proof (cases "jwt_verify e t")
    case InvalidSignature
    with False t show ?thesis by (simp add: authenticate_def)
  next
    case TokenExpired
    with False t show ?thesis by (simp add: authenticate_def)
  next
    case (Payload k)
    with d have "case k of None \<Rightarrow> True
                       | Some i \<Rightarrow> (case us i of None \<Rightarrow> True | Some u \<Rightarrow> \<not> isActive u)"
      by simp
    with False t Payload show ?thesis
      by (auto simp: authenticate_def findById_def split: option.splits)
  qed
qed


lemma bound_same:
  assumes "bound_to_handshake s g" and "same_identities s s'"
  shows "bound_to_handshake s' g"
  unfolding bound_to_handshake_def
proof (intro allI impI)
  fix sid sock' assume "sockets s' sid = Some sock'"
  with assms(2) obtain sock where k: "sockets s sid = Some sock" "sock_user sock' = sock_user sock"
    unfolding same_identities_def by blast
  from assms(2) have u: "users s' = users s" by (simp add: same_identities_def)
  from assms(1) k(1) obtain e h t i where
    "g sid = Some (e, h)" "handshake_token h = Some t" "t \<noteq> []"
    "jwt_verify e t = Payload (Some i)" "users s i = Some (sock_user sock)"
    "isActive (sock_user sock)"
    unfolding bound_to_handshake_def by blast
  with k(2) u show "\<exists>e h t i. g sid = Some (e, h) \<and> handshake_token h = Some t \<and> t \<noteq> [] \<and>
                   jwt_verify e t = Payload (Some i) \<and>
                   users s' i = Some (sock_user sock') \<and> isActive (sock_user sock')"
    by auto
qed

lemma connect_binds_identity:
  assumes "connect e sid h s = (s', None)"
  shows "\<exists>t i u. handshake_token h = Some t \<and> t \<noteq> [] \<and> jwt_verify e t = Payload (Some i) \<and>
                 users s i = Some u \<and> isActive u \<and> users s' = users s \<and>
                 sockets s' = (sockets s)(sid \<mapsto>
                   \<lparr>sock_user = u, projectId = None, whiteboardId = None, chatId = None\<rparr>)"
proof (cases "authenticate e (users s) h")
  case (Inl msg)
  with assms show ?thesis by (simp add: connect_def)
next
  case (Inr u)
  from authenticate_accepts[OF Inr] obtain t i where
    "isActive u" "handshake_token h = Some t" "t \<noteq> []"
    "jwt_verify e t = Payload (Some i)" "users s i = Some u" by blast
  moreover from assms Inr have "users s' = users s" and
    "sockets s' = (sockets s)(sid \<mapsto>
       \<lparr>sock_user = u, projectId = None, whiteboardId = None, chatId = None\<rparr>)"
    by (auto simp: connect_def join_def)
  ultimately show ?thesis by blast
qed

lemma bound_accept:
  assumes "bound_to_handshake s g" and "connect e sid h s = (s', None)"
  shows "bound_to_handshake s' (g(sid \<mapsto> (e, h)))"
proof -
  from connect_binds_identity[OF assms(2)] obtain t i u where
    b: "handshake_token h = Some t" "t \<noteq> []" "jwt_verify e t = Payload (Some i)"
       "users s i = Some u" "isActive u" "users s' = users s"
       "sockets s' = (sockets s)(sid \<mapsto>
          \<lparr>sock_user = u, projectId = None, whiteboardId = None, chatId = None\<rparr>)"
    by blast
  show ?thesis
    unfolding bound_to_handshake_def
  proof (intro allI impI)
    fix c sock assume k: "sockets s' c = Some sock"
    show "\<exists>e' h' t i. (g(sid \<mapsto> (e, h))) c = Some (e', h') \<and> handshake_token h' = Some t \<and>
                   t \<noteq> [] \<and> jwt_verify e' t = Payload (Some i) \<and>
                   users s' i = Some (sock_user sock) \<and> isActive (sock_user sock)"
    proof (cases "c = sid")
      case True
      with k b(7) have "sock_user sock = u" by auto
      with True b show ?thesis by auto
    next
      case False
      with k b(7) have "sockets s c = Some sock" by simp
      with assms(1) obtain e' h' t' i' where
        "g c = Some (e', h')" "handshake_token h' = Some t'" "t' \<noteq> []"
        "jwt_verify e' t' = Payload (Some i')" "users s i' = Some (sock_user sock)"
        "isActive (sock_user sock)"
        unfolding bound_to_handshake_def by blast
      with False b(6) show ?thesis by auto
    qed
  qed
qed

lemma traced_bound: "traced s g \<Longrightarrow> bound_to_handshake s g"
proof (induction rule: traced.induct)
  case (start s)
  then show ?case by (simp add: bound_to_handshake_def)
next
  case (accept s g sid e h s')
  from accept.IH accept.hyps(3) show ?case by (rule bound_accept)
next
  case (refuse s g sid e h s' err)
  from refuse(3) have "s' = s"
    by (cases "authenticate e (users s) h") (simp_all add: connect_def)
  with refuse show ?case by simp
next
  case (event s g e sid ev)
  then show ?case using on_event_same bound_same by blast
qed

lemma demo_store_no_socket: "sockets demo_store 1 = None" by (simp add: demo_store_def)
lemma bare_no_token: "falsy (handshake_token bare)"
    by (simp add: falsy_def handshake_token_def header_token_def bare_def)
lemma demo_accept_reachable: "reachable (fst (connect demo_env 1 good demo_store))"
    by (rule reachable.accept[OF reachable.start]) (simp_all add: demo_store_def)
lemma demo_authenticate_good: "authenticate demo_env (users demo_store) good = Inr alice"
  by (simp add: authenticate_def good_def handshake_token_def falsy_def findById_def
          demo_env_def demo_verify_def demo_store_def alice_def)

lemma demo_accept_socket: "sockets (fst (connect demo_env 1 good demo_store)) 1 =
     Some \<lparr>sock_user = alice, projectId = None, whiteboardId = None, chatId = None\<rparr>"
  by (simp add: connect_def demo_authenticate_good join_def)

lemma demo_accept: "connect demo_env 1 good demo_store = (fst (connect demo_env 1 good demo_store), None)"
  by (simp add: connect_def demo_authenticate_good)

lemma demo_accept_traced:
  "traced (fst (connect demo_env 1 good demo_store)) [1 \<mapsto> (demo_env, good)]"
  by (rule traced.accept[OF traced.start _ demo_accept]) (simp_all add: demo_store_def)


text \<open>
  C1. A handshake whose credential is missing, badly signed, expired, or resolves to no
  identity or to a deactivated one is refused: the server is unchanged, no socket exists
  for the connection id, and no event sent under that id reaches a handler. A handshake
  that is accepted carried a token which the verifier resolved to the id of a stored,
  active identity, and the socket it creates carries that identity. In every server that
  connections and events produce, each socket carries the active identity that the
  verifier of its own handshake resolved that handshake's token to.
\<close>

theorem handshake_gate:
  "(sockets s sid = None \<and>
     (falsy (handshake_token h) \<or>
      (\<exists>t. handshake_token h = Some t \<and>
           (jwt_verify e t = InvalidSignature \<or> jwt_verify e t = TokenExpired \<or>
            (\<exists>k. jwt_verify e t = Payload k \<and>
                 (case k of None \<Rightarrow> True
                  | Some i \<Rightarrow> (case users s i of None \<Rightarrow> True | Some u \<Rightarrow> \<not> isActive u))))))
     \<longrightarrow> (\<exists>msg. connect e sid h s = (s, Some msg)) \<and>
         (\<forall>(e'::env) ev. on_event e' sid ev (fst (connect e sid h s)) = (fst (connect e sid h s), [])))
   \<and> (connect e sid h s = (s', None)
     \<longrightarrow> (\<exists>t i u. handshake_token h = Some t \<and> t \<noteq> [] \<and> jwt_verify e t = Payload (Some i) \<and>
                 users s i = Some u \<and> isActive u \<and>
                 sockets s' sid
                   = Some \<lparr>sock_user = u, projectId = None, whiteboardId = None, chatId = None\<rparr>))
   \<and> (traced r g \<and> sockets r c = Some sock
     \<longrightarrow> (\<exists>e' h' t i. g c = Some (e', h') \<and> handshake_token h' = Some t \<and> t \<noteq> [] \<and>
                   jwt_verify e' t = Payload (Some i) \<and>
                   users r i = Some (sock_user sock) \<and> isActive (sock_user sock)))"
proof (intro conjI impI)
  assume a: "sockets s sid = None \<and>
     (falsy (handshake_token h) \<or>
      (\<exists>t. handshake_token h = Some t \<and>
           (jwt_verify e t = InvalidSignature \<or> jwt_verify e t = TokenExpired \<or>
            (\<exists>k. jwt_verify e t = Payload k \<and>
                 (case k of None \<Rightarrow> True
                  | Some i \<Rightarrow> (case users s i of None \<Rightarrow> True | Some u \<Rightarrow> \<not> isActive u))))))"
  then obtain msg where m: "authenticate e (users s) h = Inl msg"
    using authenticate_refuses[of h e "users s"] by blast
  then have c: "connect e sid h s = (s, Some msg)" by (simp add: connect_def)
  then show "\<exists>msg. connect e sid h s = (s, Some msg)" by blast
  from a have n: "sockets s sid = None" by simp
  show "\<forall>(e'::env) ev. on_event e' sid ev (fst (connect e sid h s)) = (fst (connect e sid h s), [])"
    by (simp add: c n on_event_def)
next
  assume "connect e sid h s = (s', None)"
  from connect_binds_identity[OF this]
  show "\<exists>t i u. handshake_token h = Some t \<and> t \<noteq> [] \<and> jwt_verify e t = Payload (Some i) \<and>
                 users s i = Some u \<and> isActive u \<and>
                 sockets s' sid
                   = Some \<lparr>sock_user = u, projectId = None, whiteboardId = None, chatId = None\<rparr>"
    by auto
next
  assume b: "traced r g \<and> sockets r c = Some sock"
  then have "bound_to_handshake r g" by (simp add: traced_bound)
  with b show "\<exists>e' h' t i. g c = Some (e', h') \<and> handshake_token h' = Some t \<and> t \<noteq> [] \<and>
                   jwt_verify e' t = Payload (Some i) \<and>
                   users r i = Some (sock_user sock) \<and> isActive (sock_user sock)"
    unfolding bound_to_handshake_def by blast
qed

theorem handshake_gate_witness:
  "(sockets demo_store 1 = None \<and> falsy (handshake_token bare)) \<and>
   (\<exists>msg. connect demo_env 1 bare demo_store = (demo_store, Some msg)) \<and>
   connect demo_env 1 good demo_store = (fst (connect demo_env 1 good demo_store), None) \<and>
   (\<exists>t i u. handshake_token good = Some t \<and> jwt_verify demo_env t = Payload (Some i) \<and>
            users demo_store i = Some u \<and> isActive u \<and>
            sockets (fst (connect demo_env 1 good demo_store)) 1
              = Some \<lparr>sock_user = u, projectId = None, whiteboardId = None, chatId = None\<rparr>) \<and>
   (traced (fst (connect demo_env 1 good demo_store)) [1 \<mapsto> (demo_env, good)] \<and>
    sockets (fst (connect demo_env 1 good demo_store)) 1 =
      Some \<lparr>sock_user = alice, projectId = None, whiteboardId = None, chatId = None\<rparr>) \<and>
   (\<exists>e' h' t i. [1 \<mapsto> (demo_env, good)] (1::nat) = Some (e', h') \<and> handshake_token h' = Some t \<and>
        jwt_verify e' t = Payload (Some i) \<and>
        users (fst (connect demo_env 1 good demo_store)) i = Some alice \<and> isActive alice)"
proof -
  note g = handshake_gate[where s = demo_store and sid = 1 and h = bare and e = demo_env
      and r = "fst (connect demo_env 1 good demo_store)" and g = "[1 \<mapsto> (demo_env, good)]"
      and c = 1
      and sock = "\<lparr>sock_user = alice, projectId = None, whiteboardId = None, chatId = None\<rparr>"]
  note k = handshake_gate[where s = demo_store and sid = 1 and h = good and e = demo_env
      and s' = "fst (connect demo_env 1 good demo_store)"]
  have a0: "(\<exists>msg. connect demo_env 1 bare demo_store = (demo_store, Some msg)) \<and>
         (\<forall>(e'::env) ev. on_event e' 1 ev (fst (connect demo_env 1 bare demo_store))
                          = (fst (connect demo_env 1 bare demo_store), []))"
    by (rule mp[OF g[THEN conjunct1]])
       (intro conjI disjI1, rule demo_store_no_socket, rule bare_no_token)
  then have a: "\<exists>msg. connect demo_env 1 bare demo_store = (demo_store, Some msg)"
    by (rule conjunct1)
  have "\<exists>t i u. handshake_token good = Some t \<and> t \<noteq> [] \<and> jwt_verify demo_env t = Payload (Some i) \<and>
            users demo_store i = Some u \<and> isActive u \<and>
            sockets (fst (connect demo_env 1 good demo_store)) 1
              = Some \<lparr>sock_user = u, projectId = None, whiteboardId = None, chatId = None\<rparr>"
    by (rule mp[OF k[THEN conjunct2, THEN conjunct1] demo_accept])
  then have b: "\<exists>t i u. handshake_token good = Some t \<and> jwt_verify demo_env t = Payload (Some i) \<and>
            users demo_store i = Some u \<and> isActive u \<and>
            sockets (fst (connect demo_env 1 good demo_store)) 1
              = Some \<lparr>sock_user = u, projectId = None, whiteboardId = None, chatId = None\<rparr>"
    by blast
  from mp[OF g[THEN conjunct2, THEN conjunct2] conjI[OF demo_accept_traced demo_accept_socket]]
  have c: "\<exists>e' h' t i. [1 \<mapsto> (demo_env, good)] (1::nat) = Some (e', h') \<and> handshake_token h' = Some t \<and>
        jwt_verify e' t = Payload (Some i) \<and>
        users (fst (connect demo_env 1 good demo_store)) i = Some alice \<and> isActive alice"
    by auto
  from demo_store_no_socket bare_no_token demo_accept demo_accept_traced demo_accept_socket a b c
  show ?thesis by (intro conjI)
qed

section \<open>Unknown element ids\<close>

lemma demo_server_alice: "sockets demo_server 11 = Some alice_socket"
  by (simp add: demo_server_def alice_socket_def)

lemma demo_server_bob: "sockets demo_server 12 = Some bob_socket"
  by (simp add: demo_server_def bob_socket_def)

lemma demo_server_board: "whiteboards demo_server ''w1'' = Some demo_board"
  by (simp add: demo_server_def demo_store_def)

lemma demo_server_chat: "chats demo_server ''c1'' = Some demo_chat"
  by (simp add: demo_server_def demo_store_def)

lemma demo_no_fault: "db_fault demo_env k = False"
  by (simp add: demo_env_def)

lemma find_no_match: "\<forall>x \<in> set xs. \<not> p x \<Longrightarrow> find p xs = None"
  by (simp add: find_None_iff)

lemma updateElement_unknown:
  assumes "\<forall>el \<in> set (elements wb). el_id el \<noteq> i"
  shows "updateElement e k w i u wb s = Inl ''Element not found''"
proof -
  from assms have "find (\<lambda>el. el_id el = i) (elements wb) = None"
    by (simp add: find_None_iff)
  then show ?thesis by (simp add: updateElement_def updateElement_doc_def)
qed

text \<open>
  C3. A \<^verbatim>\<open>whiteboard-element-update\<close> on a stored whiteboard, naming an element id that
  no element of the whiteboard has, puts exactly one event on the wire, an \<^verbatim>\<open>error\<close> to
  the sender; nothing is broadcast and the server, the stored whiteboard included, is
  unchanged.
\<close>

theorem element_update_unknown_id:
  assumes "sockets s sid = Some sock"
      and "whiteboards s w = Some wb"
      and "\<forall>el \<in> set (elements wb). Some (el_id el) \<noteq> elementId"
  shows "\<exists>msg. fst (on_event e sid (WhiteboardElementUpdate (Some w) elementId updates) s) = s \<and>
               sent (snd (on_event e sid (WhiteboardElementUpdate (Some w) elementId updates) s))
                 = [Emit sid (ErrorEvent msg)]"
proof (cases "falsy (Some w) \<or> falsy elementId \<or> updates = None")
  case True
  with assms(1) show ?thesis
    by (simp add: on_event_def whiteboard_element_update_def sent_def)
next
  case False
  then obtain i where i: "elementId = Some i" by (cases elementId) (auto simp: falsy_def)
  with assms(3) have "\<forall>el \<in> set (elements wb). el_id el \<noteq> i" by simp
  then have u: "updateElement e 1 w i (the updates) wb s = Inl ''Element not found''"
    by (rule updateElement_unknown)
  show ?thesis
  proof (cases "db_fault e 0")
    case True
    with False assms(1) show ?thesis
      by (simp add: on_event_def whiteboard_element_update_def sent_def find_whiteboard_def findById_def
            failed_def Let_def)
  next
    case nf: False
    with False assms(1,2) i u show ?thesis
      by (simp add: on_event_def whiteboard_element_update_def sent_def find_whiteboard_def findById_def
            failed_def Let_def)
  qed
qed

theorem element_update_unknown_id_witness:
  "sockets demo_server 11 = Some alice_socket \<and>
   whiteboards demo_server ''w1'' = Some demo_board \<and>
   map el_id (elements demo_board) = [''e1''] \<and>
   (\<exists>msg. fst (on_event demo_env 11
                 (WhiteboardElementUpdate (Some ''w1'') (Some ''zz'') (Some no_updates)) demo_server)
             = demo_server \<and>
          sent (snd (on_event demo_env 11
                 (WhiteboardElementUpdate (Some ''w1'') (Some ''zz'') (Some no_updates)) demo_server))
             = [Emit 11 (ErrorEvent msg)])"
proof -
  have h: "\<forall>el \<in> set (elements demo_board). Some (el_id el) \<noteq> Some ''zz''"
    by (simp add: demo_board_def)
  have i: "map el_id (elements demo_board) = [''e1'']"
    by (simp add: demo_board_def)
  from element_update_unknown_id[OF demo_server_alice demo_server_board h]
       demo_server_alice demo_server_board i
  show ?thesis by blast
qed

lemma demo_board_valid: "list_all valid_element (elements demo_board)"
  by (simp add: demo_board_def valid_element_def element_types_def)

lemma demo_remove_doc: "removeElement_doc ''zz'' demo_board = demo_board"
  by (simp add: removeElement_doc_def demo_board_def)

lemma demo_remove: "removeElement demo_env k ''w1'' ''zz'' demo_board demo_server =
    Inr (demo_board, demo_server\<lparr>whiteboards := (whiteboards demo_server)(''w1'' \<mapsto> demo_board)\<rparr>)"
  by (simp add: removeElement_def demo_remove_doc save_whiteboard_def demo_no_fault
        demo_board_valid demo_server_board)

text \<open>
  C4. On the stored whiteboard \<open>w1\<close>, whose only element is \<open>e1\<close>, a
  \<^verbatim>\<open>whiteboard-element-remove\<close> from alice naming the unknown id \<open>zz\<close> sends no
  \<^verbatim>\<open>error\<close>: the one thing sent is \<^verbatim>\<open>whiteboard-element-removed\<close>, broadcast to the other
  members of the room.
\<close>

theorem element_remove_unknown_id_broadcast:
  "snd (on_event demo_env 11 (WhiteboardElementRemove (Some ''w1'') (Some ''zz'')) demo_server)
     = [ToOthers 11 ''whiteboard_w1'' (WhiteboardElementRemoved ''zz'' (user_tag alice))]"
  by (simp add: on_event_def demo_server_alice whiteboard_element_remove_def falsy_def Let_def
        find_whiteboard_def findById_def demo_no_fault demo_server_board demo_remove alice_socket_def)

section \<open>Joining a whiteboard that is not stored\<close>

lemma absent_id_well_formed: "well_formed_id absent_id"
  by (simp add: well_formed_id_def absent_id_def is_hex_def)

lemma absent_id_not_stored: "whiteboards demo_server absent_id = None"
  by (simp add: demo_server_def demo_store_def absent_id_def)

lemma w9_not_stored: "whiteboards demo_server ''w9'' = None"
  by (simp add: demo_server_def demo_store_def)

lemma w9_malformed: "\<not> well_formed_id ''w9''"
  by (simp add: well_formed_id_def)

text \<open>
  C10, as the code has it. A \<^verbatim>\<open>join-whiteboard\<close> with a non-empty id that has no stored
  document adds the connection to the whiteboard's room and records the id as its active
  whiteboard; no document is created, and neither \<^verbatim>\<open>whiteboard-state\<close> nor
  \<^verbatim>\<open>user-joined-whiteboard\<close> is sent. When the id is a well-formed object id and the store
  answers, nothing at all is sent; when the id cannot be cast or the store fails, the
  lookup rejects and the sender is sent the \<^verbatim>\<open>error\<close> \<open>Failed to join whiteboard\<close>.
\<close>

theorem join_absent_whiteboard:
  assumes "sockets s sid = Some sock" and "w \<noteq> []" and "whiteboards s w = None"
  shows "(well_formed_id w \<and> \<not> db_fault e 0
            \<longrightarrow> snd (on_event e sid (JoinWhiteboard (Some w)) s) = []) \<and>
         (\<not> (well_formed_id w \<and> \<not> db_fault e 0)
            \<longrightarrow> sent (snd (on_event e sid (JoinWhiteboard (Some w)) s))
                  = [Emit sid (ErrorEvent ''Failed to join whiteboard'')]) \<and>
         sid \<in> rooms (fst (on_event e sid (JoinWhiteboard (Some w)) s)) (''whiteboard_'' @ w) \<and>
         sockets (fst (on_event e sid (JoinWhiteboard (Some w)) s)) sid
           = Some (sock\<lparr>whiteboardId := Some w\<rparr>) \<and>
         whiteboards (fst (on_event e sid (JoinWhiteboard (Some w)) s)) = whiteboards s"
  using assms
  by (simp add: on_event_def join_whiteboard_def falsy_def Let_def find_whiteboard_def
        findById_def set_sock_def join_def failed_def sent_def)

theorem join_absent_whiteboard_witness:
  "sockets demo_server 11 = Some alice_socket \<and> absent_id \<noteq> [] \<and>
   whiteboards demo_server absent_id = None \<and> well_formed_id absent_id \<and>
   \<not> db_fault demo_env 0 \<and>
   snd (on_event demo_env 11 (JoinWhiteboard (Some absent_id)) demo_server) = [] \<and>
   11 \<in> rooms (fst (on_event demo_env 11 (JoinWhiteboard (Some absent_id)) demo_server))
          (''whiteboard_'' @ absent_id) \<and>
   sockets (fst (on_event demo_env 11 (JoinWhiteboard (Some absent_id)) demo_server)) 11
     = Some (alice_socket\<lparr>whiteboardId := Some absent_id\<rparr>) \<and>
   whiteboards demo_server ''w9'' = None \<and> \<not> well_formed_id ''w9'' \<and>
   sent (snd (on_event demo_env 11 (JoinWhiteboard (Some ''w9'')) demo_server))
     = [Emit 11 (ErrorEvent ''Failed to join whiteboard'')]"
proof -
  have a: "absent_id \<noteq> []" by (simp add: absent_id_def)
  have b: "\<not> db_fault demo_env 0" by (simp add: demo_no_fault)
  have c: "''w9'' \<noteq> []" by simp
  note g = join_absent_whiteboard[OF demo_server_alice a absent_id_not_stored, of demo_env]
  note k = join_absent_whiteboard[OF demo_server_alice c w9_not_stored, of demo_env]
  from g absent_id_well_formed b
  have 1: "snd (on_event demo_env 11 (JoinWhiteboard (Some absent_id)) demo_server) = []"
    by blast
  from g have 2: "11 \<in> rooms (fst (on_event demo_env 11 (JoinWhiteboard (Some absent_id)) demo_server))
          (''whiteboard_'' @ absent_id)"
    and 3: "sockets (fst (on_event demo_env 11 (JoinWhiteboard (Some absent_id)) demo_server)) 11
     = Some (alice_socket\<lparr>whiteboardId := Some absent_id\<rparr>)"
    by blast+
  from k w9_malformed
  have 4: "sent (snd (on_event demo_env 11 (JoinWhiteboard (Some ''w9'')) demo_server))
     = [Emit 11 (ErrorEvent ''Failed to join whiteboard'')]"
    by blast
  from demo_server_alice a absent_id_not_stored absent_id_well_formed b w9_not_stored
       w9_malformed 1 2 3 4
  show ?thesis by blast
qed

text \<open>
  C10 as stated fails: \<open>w9\<close> is a non-empty id with no stored document, and alice's
  \<^verbatim>\<open>join-whiteboard\<close> with it is answered with an \<^verbatim>\<open>error\<close>, because the id cannot be cast
  and the lookup rejects.
\<close>

theorem join_malformed_id_reports_error:
  "snd (on_event demo_env 11 (JoinWhiteboard (Some ''w9'')) demo_server)
     = [ConsoleError ''Error joining whiteboard:'' ''Cast to ObjectId failed'',
        Emit 11 (ErrorEvent ''Failed to join whiteboard'')] \<and>
   whiteboards demo_server ''w9'' = None"
  by (simp add: on_event_def demo_server_alice join_whiteboard_def falsy_def Let_def
        find_whiteboard_def findById_def demo_no_fault w9_not_stored w9_malformed
        set_sock_def join_def failed_def)

section \<open>Chat messages\<close>

lemma show_nat_1700: "show_nat 1700 = ''1700''"
  by code_simp

lemma demo_now: "now demo_env = 1700"
  by (simp add: demo_env_def)

lemma demo_rnd: "rnd demo_env = ''k3j9x2m1q''"
  by (simp add: demo_env_def)

lemma demo_message_id: "message_id_for demo_env None = ''msg_1700_k3j9x2m1q''"
  by (simp add: message_id_for_def falsy_def demo_now demo_rnd show_nat_1700)

lemma demo_message_valid: "valid_message demo_message"
  by (simp add: demo_message_def valid_message_def message_types_def)

lemma demo_chat_messages: "messages demo_chat = [demo_message]"
  by (simp add: demo_chat_def)

lemma hi_message_valid: "valid_message hi_message"
  by (simp add: hi_message_def valid_message_def message_types_def)

lemma demo_add_doc:
  "addMessage_doc demo_env
     \<lparr>md_id = None, md_sender = ''u2'', md_content = ''hi'', md_type = ''text'',
      md_attachments = []\<rparr> demo_chat
   = demo_chat\<lparr>messages := [demo_message, hi_message]\<rparr>"
  by (simp add: addMessage_doc_def demo_message_id hi_message_def demo_chat_messages demo_now)

lemma demo_add:
  "addMessage demo_env k ''c1''
     \<lparr>md_id = None, md_sender = ''u2'', md_content = ''hi'', md_type = ''text'',
      md_attachments = []\<rparr> demo_chat demo_server
   = Inr (demo_chat\<lparr>messages := [demo_message, hi_message], lastActivity := 1700\<rparr>,
          demo_server\<lparr>chats := (chats demo_server)(''c1'' \<mapsto>
             demo_chat\<lparr>messages := [demo_message, hi_message], lastActivity := 1700\<rparr>)\<rparr>)"
  by (simp add: addMessage_def demo_add_doc save_chat_def demo_no_fault demo_message_valid
        hi_message_valid demo_server_chat demo_chat_messages demo_now Let_def)


lemmas handler_defs = join_project_def leave_project_def join_whiteboard_def
  whiteboard_element_add_def whiteboard_element_update_def whiteboard_element_remove_def
  whiteboard_cursor_update_def join_chat_def chat_typing_def chat_message_read_def
  user_presence_update_def

lemma cleanup_whiteboard_to_others:
  "cleanup_whiteboard e sid sock s = Inr (s', out) \<Longrightarrow>
     \<forall>em \<in> set out. is_broadcast em \<longrightarrow> sid \<notin> recipients R em"
  by (auto simp: cleanup_whiteboard_def Let_def split: if_splits sum.splits option.splits)

lemma cleanup_chat_to_others:
  "cleanup_chat e sid sock s = Inr (s', out) \<Longrightarrow>
     \<forall>em \<in> set out. is_broadcast em \<longrightarrow> sid \<notin> recipients R em"
  by (auto simp: cleanup_chat_def Let_def split: if_splits sum.splits option.splits)

lemma cleanup_project_to_others:
  "\<forall>em \<in> set (cleanup_project e sid sock). is_broadcast em \<longrightarrow> sid \<notin> recipients R em"
  by (simp add: cleanup_project_def)

lemma disconnect_to_others:
  "\<forall>em \<in> set (snd (disconnect e sid sock s)). is_broadcast em \<longrightarrow> sid \<notin> recipients R em"
proof (cases "cleanup_whiteboard e sid sock (drop_socket sid s)")
  case (Inl err)
  then show ?thesis by (simp add: disconnect_def Let_def)
next
  case (Inr p)
  obtain s1 out1 where p: "p = (s1, out1)" by (cases p)
  note w = cleanup_whiteboard_to_others[OF Inr[unfolded p], of R]
  show ?thesis
  proof (cases "cleanup_chat e sid sock s1")
    case (Inl err)
    with Inr p w show ?thesis by (auto simp: disconnect_def Let_def)
  next
    case c: (Inr q)
    obtain s2 out2 where q: "q = (s2, out2)" by (cases q)
    note k = cleanup_chat_to_others[OF c[unfolded q], of R]
    from Inr p c q w k cleanup_project_to_others[of e sid sock R] show ?thesis
      by (auto simp: disconnect_def Let_def)
  qed
qed

lemma others_to_others:
  assumes "sockets s sid = Some sock" and "\<forall>c b t a. ev \<noteq> ChatMessage c b t a"
  shows "\<forall>em \<in> set (snd (on_event e sid ev s)). is_broadcast em \<longrightarrow> sid \<notin> recipients R em"
proof (cases ev)
  case Disconnect
  with assms(1) show ?thesis by (simp add: on_event_def disconnect_to_others)
next
  case (ChatMessage c b t a)
  with assms(2) show ?thesis by simp
next
  case (NoPayload n)
  with assms(1) show ?thesis
    by (cases n)
       (simp_all add: on_event_def handler_defs chat_message_def failed_def crash_def)
qed (use assms(1) in \<open>auto simp: on_event_def handler_defs failed_def Let_def
        split: sum.splits option.splits\<close>)

lemma chat_message_stored:
  assumes "sockets s sid = Some sock" and "c \<noteq> []" and "body \<noteq> []"
      and "chats s c = Some ch" and "\<not> db_fault e 0" and "\<not> db_fault e 1"
      and "list_all valid_message (messages ch)" and "length body \<le> 2000"
      and "opt_or ty ''text'' \<in> set message_types" and "uid (sock_user sock) \<noteq> []"
  shows "on_event e sid (ChatMessage (Some c) (Some body) ty atts) s =
          (let m = \<lparr>msg_id = ''msg_'' @ show_nat (now e) @ ''_'' @ rnd e,
                    sender = uid (sock_user sock), content = body,
                    msg_type = opt_or ty ''text'', attachments = opt_or atts [],
                    reactions = [], readBy = [], isEdited = False, editedAt = None,
                    isDeleted = False, deletedAt = None, msg_createdAt = now e\<rparr>
           in (s\<lparr>chats := (chats s)(c \<mapsto> ch\<lparr>messages := messages ch @ [m], lastActivity := now e\<rparr>)\<rparr>,
               [ToAll (''chat_'' @ c) (ChatMessageReceived m (user_card (sock_user sock)))]))"
proof -
  let ?d = "\<lparr>md_id = None, md_sender = uid (sock_user sock), md_content = body,
             md_type = opt_or ty ''text'', md_attachments = opt_or atts []\<rparr>"
  let ?m = "\<lparr>msg_id = ''msg_'' @ show_nat (now e) @ ''_'' @ rnd e,
                    sender = uid (sock_user sock), content = body,
                    msg_type = opt_or ty ''text'', attachments = opt_or atts [],
                    reactions = [], readBy = [], isEdited = False, editedAt = None,
                    isDeleted = False, deletedAt = None, msg_createdAt = now e\<rparr>"
  have d: "addMessage_doc e ?d ch = ch\<lparr>messages := messages ch @ [?m]\<rparr>"
    by (simp add: addMessage_doc_def message_id_for_def falsy_def)
  have v: "valid_message ?m"
    using assms(3,8,9,10) by (simp add: valid_message_def)
  have a: "addMessage e 1 c ?d ch s =
            Inr (ch\<lparr>messages := messages ch @ [?m], lastActivity := now e\<rparr>,
                 s\<lparr>chats := (chats s)(c \<mapsto> ch\<lparr>messages := messages ch @ [?m], lastActivity := now e\<rparr>)\<rparr>)"
    using assms(4,6,7) v by (simp add: addMessage_def d save_chat_def Let_def)
  have f: "find_chat e 0 c s = Inr (Some ch)"
    using assms(4,5) by (simp add: find_chat_def findById_def)
  show ?thesis
    using assms(1,2,3)
    by (simp add: on_event_def chat_message_def falsy_def Let_def f a del: One_nat_def)
qed

lemma demo_chat_room: "rooms demo_server ''chat_c1'' = {11, 12}"
  by (simp add: demo_server_def)

lemma demo_bob_uid: "uid (sock_user bob_socket) = ''u2''"
  by (simp add: bob_socket_def bob_def)

text \<open>
  C2. A \<^verbatim>\<open>chat-message\<close> with a non-empty chat id and content, from a connection in the
  chat's room, on a stored chat and with the message accepted by the store: the message is
  appended with the server's id and date, and that message is sent as
  \<^verbatim>\<open>chat-message-received\<close> to every member of the room, the sender among them. Every
  broadcast of any other event leaves the sender out, whatever the rooms hold.
\<close>

theorem chat_message_reaches_sender:
  "(sockets s sid = Some sock \<and> sid \<in> rooms s (''chat_'' @ c) \<and> c \<noteq> [] \<and> body \<noteq> [] \<and>
    chats s c = Some ch \<and> \<not> db_fault e 0 \<and> \<not> db_fault e 1 \<and>
    list_all valid_message (messages ch) \<and> length body \<le> 2000 \<and>
    opt_or ty ''text'' \<in> set message_types \<and> uid (sock_user sock) \<noteq> []
    \<longrightarrow> (\<exists>m ch'.
          snd (on_event e sid (ChatMessage (Some c) (Some body) ty atts) s)
            = [ToAll (''chat_'' @ c) (ChatMessageReceived m (user_card (sock_user sock)))] \<and>
          chats (fst (on_event e sid (ChatMessage (Some c) (Some body) ty atts) s)) c = Some ch' \<and>
          messages ch' = messages ch @ [m] \<and>
          msg_id m = ''msg_'' @ show_nat (now e) @ ''_'' @ rnd e \<and> msg_createdAt m = now e \<and>
          content m = body \<and> sender m = uid (sock_user sock) \<and>
          recipients (rooms (fst (on_event e sid (ChatMessage (Some c) (Some body) ty atts) s)))
            (ToAll (''chat_'' @ c) (ChatMessageReceived m (user_card (sock_user sock))))
            = rooms s (''chat_'' @ c) \<and>
          sid \<in> recipients
                  (rooms (fst (on_event e sid (ChatMessage (Some c) (Some body) ty atts) s)))
                  (ToAll (''chat_'' @ c) (ChatMessageReceived m (user_card (sock_user sock))))))
   \<and> (sockets s' sid' = Some sock' \<and> (\<forall>c b t a. ev \<noteq> ChatMessage c b t a)
      \<longrightarrow> (\<forall>em \<in> set (snd (on_event e' sid' ev s')). is_broadcast em \<longrightarrow> sid' \<notin> recipients R em))"
proof (intro conjI impI)
  assume h: "sockets s sid = Some sock \<and> sid \<in> rooms s (''chat_'' @ c) \<and> c \<noteq> [] \<and> body \<noteq> [] \<and>
    chats s c = Some ch \<and> \<not> db_fault e 0 \<and> \<not> db_fault e 1 \<and>
    list_all valid_message (messages ch) \<and> length body \<le> 2000 \<and>
    opt_or ty ''text'' \<in> set message_types \<and> uid (sock_user sock) \<noteq> []"
  then have "on_event e sid (ChatMessage (Some c) (Some body) ty atts) s =
          (let m = \<lparr>msg_id = ''msg_'' @ show_nat (now e) @ ''_'' @ rnd e,
                    sender = uid (sock_user sock), content = body,
                    msg_type = opt_or ty ''text'', attachments = opt_or atts [],
                    reactions = [], readBy = [], isEdited = False, editedAt = None,
                    isDeleted = False, deletedAt = None, msg_createdAt = now e\<rparr>
           in (s\<lparr>chats := (chats s)(c \<mapsto> ch\<lparr>messages := messages ch @ [m], lastActivity := now e\<rparr>)\<rparr>,
               [ToAll (''chat_'' @ c) (ChatMessageReceived m (user_card (sock_user sock)))]))"
    by (intro chat_message_stored) simp_all
  with h show "\<exists>m ch'.
          snd (on_event e sid (ChatMessage (Some c) (Some body) ty atts) s)
            = [ToAll (''chat_'' @ c) (ChatMessageReceived m (user_card (sock_user sock)))] \<and>
          chats (fst (on_event e sid (ChatMessage (Some c) (Some body) ty atts) s)) c = Some ch' \<and>
          messages ch' = messages ch @ [m] \<and>
          msg_id m = ''msg_'' @ show_nat (now e) @ ''_'' @ rnd e \<and> msg_createdAt m = now e \<and>
          content m = body \<and> sender m = uid (sock_user sock) \<and>
          recipients (rooms (fst (on_event e sid (ChatMessage (Some c) (Some body) ty atts) s)))
            (ToAll (''chat_'' @ c) (ChatMessageReceived m (user_card (sock_user sock))))
            = rooms s (''chat_'' @ c) \<and>
          sid \<in> recipients
                  (rooms (fst (on_event e sid (ChatMessage (Some c) (Some body) ty atts) s)))
                  (ToAll (''chat_'' @ c) (ChatMessageReceived m (user_card (sock_user sock))))"
    by (simp add: Let_def)
next
  assume "sockets s' sid' = Some sock' \<and> (\<forall>c b t a. ev \<noteq> ChatMessage c b t a)"
  then show "\<forall>em \<in> set (snd (on_event e' sid' ev s')). is_broadcast em \<longrightarrow> sid' \<notin> recipients R em"
    using others_to_others[of s' sid' sock' ev e' R] by blast
qed

theorem chat_message_reaches_sender_witness:
  "(sockets demo_server 12 = Some bob_socket \<and> 12 \<in> rooms demo_server (''chat_'' @ ''c1'') \<and>
    ''c1'' \<noteq> [] \<and> ''hi'' \<noteq> [] \<and> chats demo_server ''c1'' = Some demo_chat \<and>
    \<not> db_fault demo_env 0 \<and> \<not> db_fault demo_env 1 \<and>
    list_all valid_message (messages demo_chat) \<and> length ''hi'' \<le> 2000 \<and>
    opt_or None ''text'' \<in> set message_types \<and> uid (sock_user bob_socket) \<noteq> []) \<and>
   (\<exists>m. snd (on_event demo_env 12 (ChatMessage (Some ''c1'') (Some ''hi'') None None) demo_server)
            = [ToAll (''chat_'' @ ''c1'') (ChatMessageReceived m (user_card (sock_user bob_socket)))] \<and>
        12 \<in> recipients
               (rooms (fst (on_event demo_env 12
                        (ChatMessage (Some ''c1'') (Some ''hi'') None None) demo_server)))
               (ToAll (''chat_'' @ ''c1'') (ChatMessageReceived m (user_card (sock_user bob_socket))))) \<and>
   sockets demo_server 11 = Some alice_socket \<and>
   snd (on_event demo_env 11 (JoinProject (Some ''p1'')) demo_server)
     = [ToOthers 11 ''project_p1'' (UserJoinedProject (user_card alice) 1700)] \<and>
   11 \<notin> recipients (rooms demo_server)
          (ToOthers 11 ''project_p1'' (UserJoinedProject (user_card alice) 1700))"
proof -
  have h: "sockets demo_server 12 = Some bob_socket \<and> 12 \<in> rooms demo_server (''chat_'' @ ''c1'') \<and>
    ''c1'' \<noteq> [] \<and> ''hi'' \<noteq> [] \<and> chats demo_server ''c1'' = Some demo_chat \<and>
    \<not> db_fault demo_env 0 \<and> \<not> db_fault demo_env 1 \<and>
    list_all valid_message (messages demo_chat) \<and> length ''hi'' \<le> 2000 \<and>
    opt_or None ''text'' \<in> set message_types \<and> uid (sock_user bob_socket) \<noteq> []"
    by (simp add: demo_server_bob demo_chat_room demo_server_chat demo_no_fault
          demo_chat_messages demo_message_valid opt_or_def message_types_def demo_bob_uid)
  have k: "sockets demo_server 11 = Some alice_socket \<and>
    (\<forall>c b t a. JoinProject (Some ''p1'') \<noteq> ChatMessage c b t a)"
    by (simp add: demo_server_alice)
  have j: "snd (on_event demo_env 11 (JoinProject (Some ''p1'')) demo_server)
     = [ToOthers 11 ''project_p1'' (UserJoinedProject (user_card alice) 1700)]"
    by (simp add: on_event_def demo_server_alice join_project_def falsy_def Let_def
          alice_socket_def demo_env_def)
  note g = chat_message_reaches_sender[where s = demo_server and sid = 12 and sock = bob_socket
      and c = "''c1''" and body = "''hi''" and ch = demo_chat and e = demo_env and ty = None
      and atts = None and s' = demo_server and sid' = 11 and sock' = alice_socket
      and ev = "JoinProject (Some ''p1'')" and e' = demo_env and R = "rooms demo_server"]
  from g h have a: "\<exists>m. snd (on_event demo_env 12 (ChatMessage (Some ''c1'') (Some ''hi'') None None) demo_server)
            = [ToAll (''chat_'' @ ''c1'') (ChatMessageReceived m (user_card (sock_user bob_socket)))] \<and>
        12 \<in> recipients
               (rooms (fst (on_event demo_env 12
                        (ChatMessage (Some ''c1'') (Some ''hi'') None None) demo_server)))
               (ToAll (''chat_'' @ ''c1'') (ChatMessageReceived m (user_card (sock_user bob_socket))))"
    by blast
  from g k have "\<forall>em \<in> set (snd (on_event demo_env 11 (JoinProject (Some ''p1'')) demo_server)).
       is_broadcast em \<longrightarrow> 11 \<notin> recipients (rooms demo_server) em"
    by blast
  then have b: "11 \<notin> recipients (rooms demo_server)
          (ToOthers 11 ''project_p1'' (UserJoinedProject (user_card alice) 1700))"
    unfolding j by simp
  from h k a b j show ?thesis by blast
qed

text \<open>
  C9. Bob's \<^verbatim>\<open>chat-message\<close> \<open>hi\<close> to the stored chat \<open>c1\<close>: the message is appended
  to the chat's messages and broadcast, and its read-by list is empty; the sender is not
  in it.
\<close>

theorem chat_message_read_by_empty:
  "on_event demo_env 12 hi_from_bob demo_server =
     (demo_server\<lparr>chats := (chats demo_server)(''c1'' \<mapsto>
             demo_chat\<lparr>messages := [demo_message, hi_message], lastActivity := 1700\<rparr>)\<rparr>,
      [ToAll ''chat_c1'' (ChatMessageReceived hi_message (user_card bob))])
   \<and> readBy hi_message = []"
  by (simp add: on_event_def hi_from_bob_def demo_server_bob chat_message_def falsy_def Let_def
        find_chat_def findById_def demo_no_fault demo_server_chat bob_socket_def opt_or_def)
     (simp add: bob_def demo_add hi_message_def)

section \<open>Payloads that lack a required field\<close>

lemma unguarded_throw:
  assumes "sockets s sid = Some sock" and "unguarded ev"
  shows "on_event e sid ev s = crash no_data s"
proof (cases ev)
  case (NoPayload n)
  with assms show ?thesis
    by (cases n) (simp_all add: on_event_def leave_project_def user_presence_update_def)
qed (use assms(2) in simp_all)

text \<open>
  C8, as the code has it. An event whose payload lacks a field its handler requires, or
  that comes without a payload, changes nothing and leaves the connection open; the two
  events whose handler has no \<^verbatim>\<open>try\<close>, sent without a payload, are set aside. The handlers
  of \<^verbatim>\<open>join-project\<close>, \<^verbatim>\<open>join-whiteboard\<close>, \<^verbatim>\<open>join-chat\<close>, \<^verbatim>\<open>whiteboard-element-add\<close>,
  \<^verbatim>\<open>-update\<close>, \<^verbatim>\<open>-remove\<close> and \<^verbatim>\<open>chat-message\<close> send one \<^verbatim>\<open>error\<close> to the sender and nothing
  else; those of \<^verbatim>\<open>whiteboard-cursor-update\<close>, \<^verbatim>\<open>chat-typing-start\<close>, \<^verbatim>\<open>chat-typing-stop\<close>,
  \<^verbatim>\<open>chat-message-read\<close>, \<^verbatim>\<open>leave-project\<close> and \<^verbatim>\<open>user-presence-update\<close> send nothing. With a
  payload the handler writes no log entry either.
\<close>

theorem missing_field_handling:
  assumes "sockets s sid = Some sock" and "lacks_required ev" and "\<not> unguarded ev"
  shows "fst (on_event e sid ev s) = s \<and>
         sockets (fst (on_event e sid ev s)) sid = Some sock \<and>
         sent (snd (on_event e sid ev s))
           = (case rejection ev of Some msg \<Rightarrow> [Emit sid (ErrorEvent msg)] | None \<Rightarrow> []) \<and>
         ((\<forall>n. ev \<noteq> NoPayload n)
            \<longrightarrow> snd (on_event e sid ev s)
                  = (case rejection ev of Some msg \<Rightarrow> [Emit sid (ErrorEvent msg)] | None \<Rightarrow> []))"
proof (cases ev)
  case (NoPayload n)
  with assms show ?thesis
    by (cases n)
       (simp_all add: on_event_def handler_defs chat_message_def failed_def sent_def)
qed (use assms in \<open>auto simp: on_event_def handler_defs chat_message_def sent_def\<close>)

theorem missing_field_handling_witness:
  "sockets demo_server 11 = Some alice_socket \<and> lacks_required (JoinChat None) \<and>
   lacks_required (ChatTypingStart (Some [])) \<and> lacks_required (NoPayload JoinChatEvent) \<and>
   on_event demo_env 11 (JoinChat None) demo_server
     = (demo_server, [Emit 11 (ErrorEvent ''Chat ID is required'')]) \<and>
   on_event demo_env 11 (ChatTypingStart (Some [])) demo_server = (demo_server, []) \<and>
   fst (on_event demo_env 11 (NoPayload JoinChatEvent) demo_server) = demo_server \<and>
   sent (snd (on_event demo_env 11 (NoPayload JoinChatEvent) demo_server))
     = [Emit 11 (ErrorEvent ''Failed to join chat'')]"
proof -
  have a: "lacks_required (JoinChat None)" by (simp add: falsy_def)
  have b: "lacks_required (ChatTypingStart (Some []))" by (simp add: falsy_def)
  have c: "lacks_required (NoPayload JoinChatEvent)" by simp
  have a': "\<not> unguarded (JoinChat None)" by simp
  have b': "\<not> unguarded (ChatTypingStart (Some []))" by simp
  have c': "\<not> unguarded (NoPayload JoinChatEvent)" by simp
  note 1 = missing_field_handling[OF demo_server_alice a a', of demo_env]
  note 2 = missing_field_handling[OF demo_server_alice b b', of demo_env]
  note 3 = missing_field_handling[OF demo_server_alice c c', of demo_env]
  from 1 have x: "on_event demo_env 11 (JoinChat None) demo_server
     = (demo_server, [Emit 11 (ErrorEvent ''Chat ID is required'')])"
    by (simp add: prod_eq_iff)
  from 2 have y: "on_event demo_env 11 (ChatTypingStart (Some [])) demo_server = (demo_server, [])"
    by (simp add: prod_eq_iff)
  from 3 have z: "fst (on_event demo_env 11 (NoPayload JoinChatEvent) demo_server) = demo_server \<and>
   sent (snd (on_event demo_env 11 (NoPayload JoinChatEvent) demo_server))
     = [Emit 11 (ErrorEvent ''Failed to join chat'')]"
    by simp
  from demo_server_alice a b c x y z show ?thesis by blast
qed

text \<open>
  C8 as stated fails: a \<^verbatim>\<open>whiteboard-cursor-update\<close> without a whiteboard id is dropped
  in silence, no \<^verbatim>\<open>error\<close> is sent.
\<close>

theorem cursor_update_missing_id_silent:
  "on_event demo_env 11 (WhiteboardCursorUpdate None (Some (3, 4))) demo_server = (demo_server, [])"
  by (simp add: on_event_def demo_server_alice whiteboard_cursor_update_def falsy_def)

section \<open>Cleanup on disconnect\<close>

lemma cleanup_whiteboard_keeps:
  "cleanup_whiteboard e sid sock s = Inr (s', out) \<Longrightarrow>
     sockets s' = sockets s \<and> rooms s' = rooms s \<and> chats s' = chats s"
  by (auto simp: cleanup_whiteboard_def removeCollaborator_def store_defs Let_def
           split: if_splits option.splits)

lemma cleanup_chat_keeps:
  "cleanup_chat e sid sock s = Inr (s', out) \<Longrightarrow>
     sockets s' = sockets s \<and> rooms s' = rooms s \<and> whiteboards s' = whiteboards s"
  by (auto simp: cleanup_chat_def updateTypingStatus_def store_defs Let_def
           split: if_splits option.splits sum.splits)

lemma cleanup_whiteboard_not_to_self:
  "cleanup_whiteboard e sid sock s = Inr (s', out) \<Longrightarrow> \<forall>em \<in> set out. sid \<notin> recipients R em"
  by (auto simp: cleanup_whiteboard_def Let_def split: if_splits sum.splits option.splits)

lemma cleanup_chat_not_to_self:
  "cleanup_chat e sid sock s = Inr (s', out) \<Longrightarrow> \<forall>em \<in> set out. sid \<notin> recipients R em"
  by (auto simp: cleanup_chat_def Let_def split: if_splits sum.splits option.splits)

lemma cleanup_project_not_to_self:
  "\<forall>em \<in> set (cleanup_project e sid sock). sid \<notin> recipients R em"
  by (simp add: cleanup_project_def)

lemma disconnect_not_to_self:
  "\<forall>em \<in> set (snd (disconnect e sid sock s)). sid \<notin> recipients R em"
proof (cases "cleanup_whiteboard e sid sock (drop_socket sid s)")
  case (Inl err)
  then show ?thesis by (simp add: disconnect_def Let_def)
next
  case (Inr p)
  obtain s1 out1 where p: "p = (s1, out1)" by (cases p)
  note w = cleanup_whiteboard_not_to_self[OF Inr[unfolded p], of R]
  show ?thesis
  proof (cases "cleanup_chat e sid sock s1")
    case (Inl err)
    with Inr p w show ?thesis by (auto simp: disconnect_def Let_def)
  next
    case c: (Inr q)
    obtain s2 out2 where q: "q = (s2, out2)" by (cases q)
    note k = cleanup_chat_not_to_self[OF c[unfolded q], of R]
    from Inr p c q w k cleanup_project_not_to_self[of e sid sock R] show ?thesis
      by (auto simp: disconnect_def Let_def)
  qed
qed

lemma disconnect_socket_gone: "sockets (fst (disconnect e sid sock s)) sid = None"
proof (cases "cleanup_whiteboard e sid sock (drop_socket sid s)")
  case (Inl err)
  then show ?thesis by (simp add: disconnect_def Let_def drop_socket_def)
next
  case (Inr p)
  obtain s1 out1 where p: "p = (s1, out1)" by (cases p)
  from cleanup_whiteboard_keeps[OF Inr[unfolded p]]
  have w: "sockets s1 sid = None" by (simp add: drop_socket_def)
  show ?thesis
  proof (cases "cleanup_chat e sid sock s1")
    case (Inl err)
    with Inr p w show ?thesis by (simp add: disconnect_def Let_def)
  next
    case c: (Inr q)
    obtain s2 out2 where q: "q = (s2, out2)" by (cases q)
    from cleanup_chat_keeps[OF c[unfolded q]] w have "sockets s2 sid = None" by simp
    with Inr p c q show ?thesis by (simp add: disconnect_def Let_def)
  qed
qed

lemma demo_drop_board: "whiteboards (drop_socket k demo_server) ''w1'' = Some demo_board"
  by (simp add: drop_socket_def demo_server_board)

lemma demo_drop_chat: "chats (drop_socket k demo_server) ''c1'' = Some demo_chat"
  by (simp add: drop_socket_def demo_server_chat)

lemma alice_leaves_board_doc: "removeCollaborator_doc ''u1'' demo_board = demo_board\<lparr>collaborators := []\<rparr>"
  by (simp add: removeCollaborator_doc_def demo_board_def)

lemma alice_leaves_board:
  "removeCollaborator demo_env k ''w1'' ''u1'' demo_board (drop_socket 11 demo_server)
     = Inr (demo_board\<lparr>collaborators := []\<rparr>, alice_gone)"
  by (simp add: removeCollaborator_def alice_leaves_board_doc save_whiteboard_def demo_no_fault
        demo_board_valid demo_drop_board alice_gone_def Let_def)
     (simp add: drop_socket_def)

lemma alice_cleanup_whiteboard:
  "cleanup_whiteboard demo_env 11 alice_socket (drop_socket 11 demo_server)
     = Inr (alice_gone, [ToOthers 11 ''whiteboard_w1'' (UserLeftWhiteboard (user_tag alice))])"
  by (simp add: cleanup_whiteboard_def alice_socket_def falsy_def find_whiteboard_def findById_def
        demo_no_fault demo_drop_board Let_def)
     (simp add: alice_def alice_leaves_board)

lemma alice_gone_chat: "chats alice_gone ''c1'' = Some demo_chat"
  by (simp add: alice_gone_def demo_drop_chat drop_socket_def demo_server_chat)

lemma alice_not_participant: "updateTypingStatus e k c ''u1'' False demo_chat s = Inl ''User not found in chat''"
  by (simp add: updateTypingStatus_def updateTypingStatus_doc_def demo_chat_def)

lemma alice_cleanup_chat:
  "cleanup_chat demo_env 11 alice_socket alice_gone = Inl ''User not found in chat''"
  by (simp add: cleanup_chat_def alice_socket_def falsy_def find_chat_def findById_def
        demo_no_fault alice_gone_chat Let_def)
     (simp add: alice_def alice_not_participant)

lemma alice_cleanup_project:
  "cleanup_project demo_env 11 alice_socket
     = [ToOthers 11 ''project_p1'' (UserLeftProject (user_tag alice) 1700)]"
  by (simp add: cleanup_project_def alice_socket_def falsy_def demo_env_def)

lemma faulty_cleanup_whiteboard:
  "cleanup_whiteboard faulty_env 11 alice_socket (drop_socket 11 demo_server) = Inl ''storage failure''"
  by (simp add: cleanup_whiteboard_def alice_socket_def falsy_def find_whiteboard_def findById_def
        faulty_env_def Let_def)

lemma bob_leaves_board_doc: "removeCollaborator_doc ''u2'' demo_board = demo_board"
  by (simp add: removeCollaborator_doc_def demo_board_def)

lemma bob_leaves_board:
  "removeCollaborator demo_env k ''w1'' ''u2'' demo_board (drop_socket 12 demo_server)
     = Inr (demo_board, bob_half_gone)"
  by (simp add: removeCollaborator_def bob_leaves_board_doc save_whiteboard_def demo_no_fault
        demo_board_valid demo_drop_board bob_half_gone_def Let_def)
     (simp add: drop_socket_def)

lemma bob_cleanup_whiteboard:
  "cleanup_whiteboard demo_env 12 bob_socket (drop_socket 12 demo_server)
     = Inr (bob_half_gone, [ToOthers 12 ''whiteboard_w1'' (UserLeftWhiteboard (user_tag bob))])"
  by (simp add: cleanup_whiteboard_def bob_socket_def falsy_def find_whiteboard_def findById_def
        demo_no_fault demo_drop_board Let_def)
     (simp add: bob_def bob_leaves_board)

lemma bob_half_gone_chat: "chats bob_half_gone ''c1'' = Some demo_chat"
  by (simp add: bob_half_gone_def drop_socket_def demo_server_chat)

lemma bob_stops_typing_doc: "updateTypingStatus_doc ''u2'' False demo_chat = Inr demo_chat"
  by (simp add: updateTypingStatus_doc_def demo_chat_def)

lemma demo_chat_all_valid: "list_all valid_message (messages demo_chat)"
  by (simp add: demo_chat_def demo_message_def valid_message_def message_types_def)

lemma bob_stops_typing:
  "updateTypingStatus demo_env k ''c1'' ''u2'' False demo_chat bob_half_gone = Inr (demo_chat, bob_gone)"
  by (simp add: updateTypingStatus_def bob_stops_typing_doc save_chat_def demo_no_fault
        demo_chat_all_valid bob_half_gone_chat bob_gone_def Let_def)
     (simp add: bob_half_gone_def drop_socket_def)

lemma bob_cleanup_chat:
  "cleanup_chat demo_env 12 bob_socket bob_half_gone
     = Inr (bob_gone, [ToOthers 12 ''chat_c1'' (UserTyping (user_tag bob) False)])"
  by (simp add: cleanup_chat_def bob_socket_def falsy_def find_chat_def findById_def
        demo_no_fault bob_half_gone_chat Let_def)
     (simp add: bob_def bob_stops_typing)

lemma bob_cleanup_project:
  "cleanup_project demo_env 12 bob_socket
     = [ToOthers 12 ''project_p1'' (UserLeftProject (user_tag bob) 1700)]"
  by (simp add: cleanup_project_def bob_socket_def falsy_def demo_env_def)

text \<open>
  C5, as the code has it. On disconnect the three cleanups run in order inside one guarded
  block. When the whiteboard cleanup fails, the failure is logged and nothing else is
  done; when it succeeds and the chat cleanup fails, the whiteboard cleanup stays done,
  the failure is logged and the project notice is not sent; when neither fails all three
  are done. Nothing is ever sent to the departed connection, and its socket is gone.
\<close>

theorem disconnect_cleanups_in_order:
  assumes "sockets s sid = Some sock"
  shows "(cleanup_whiteboard e sid sock (drop_socket sid s) = Inl err
            \<longrightarrow> on_event e sid Disconnect s
                  = (drop_socket sid s, [ConsoleError ''Error cleaning up socket disconnect:'' err]))
       \<and> (cleanup_whiteboard e sid sock (drop_socket sid s) = Inr (s1, out1) \<and>
          cleanup_chat e sid sock s1 = Inl err
            \<longrightarrow> on_event e sid Disconnect s
                  = (s1, out1 @ [ConsoleError ''Error cleaning up socket disconnect:'' err]))
       \<and> (cleanup_whiteboard e sid sock (drop_socket sid s) = Inr (s1, out1) \<and>
          cleanup_chat e sid sock s1 = Inr (s2, out2)
            \<longrightarrow> on_event e sid Disconnect s = (s2, out1 @ out2 @ cleanup_project e sid sock))
       \<and> (\<forall>em \<in> set (snd (on_event e sid Disconnect s)). sid \<notin> recipients R em)
       \<and> sockets (fst (on_event e sid Disconnect s)) sid = None"
  using assms disconnect_not_to_self[of e sid sock s R] disconnect_socket_gone[of e sid sock s]
  by (simp add: on_event_def disconnect_def Let_def)

theorem disconnect_cleanups_in_order_witness:
  "sockets demo_server 11 = Some alice_socket \<and>
   cleanup_whiteboard faulty_env 11 alice_socket (drop_socket 11 demo_server) = Inl ''storage failure'' \<and>
   on_event faulty_env 11 Disconnect demo_server
     = (drop_socket 11 demo_server,
        [ConsoleError ''Error cleaning up socket disconnect:'' ''storage failure'']) \<and>
   cleanup_whiteboard demo_env 11 alice_socket (drop_socket 11 demo_server)
     = Inr (alice_gone, [ToOthers 11 ''whiteboard_w1'' (UserLeftWhiteboard (user_tag alice))]) \<and>
   cleanup_chat demo_env 11 alice_socket alice_gone = Inl ''User not found in chat'' \<and>
   on_event demo_env 11 Disconnect demo_server
     = (alice_gone,
        [ToOthers 11 ''whiteboard_w1'' (UserLeftWhiteboard (user_tag alice))] @
        [ConsoleError ''Error cleaning up socket disconnect:'' ''User not found in chat'']) \<and>
   sockets (fst (on_event demo_env 11 Disconnect demo_server)) 11 = None \<and>
   sockets demo_server 12 = Some bob_socket \<and>
   cleanup_whiteboard demo_env 12 bob_socket (drop_socket 12 demo_server)
     = Inr (bob_half_gone, [ToOthers 12 ''whiteboard_w1'' (UserLeftWhiteboard (user_tag bob))]) \<and>
   cleanup_chat demo_env 12 bob_socket bob_half_gone
     = Inr (bob_gone, [ToOthers 12 ''chat_c1'' (UserTyping (user_tag bob) False)]) \<and>
   on_event demo_env 12 Disconnect demo_server
     = (bob_gone,
        [ToOthers 12 ''whiteboard_w1'' (UserLeftWhiteboard (user_tag bob)),
         ToOthers 12 ''chat_c1'' (UserTyping (user_tag bob) False),
         ToOthers 12 ''project_p1'' (UserLeftProject (user_tag bob) 1700)])"
proof -
  note a = disconnect_cleanups_in_order[OF demo_server_alice, where e = faulty_env
      and err = "''storage failure''"]
  note b = disconnect_cleanups_in_order[OF demo_server_alice, where e = demo_env
      and err = "''User not found in chat''" and ?s1.0 = alice_gone
      and ?out1.0 = "[ToOthers 11 ''whiteboard_w1'' (UserLeftWhiteboard (user_tag alice))]"]
  note c = disconnect_cleanups_in_order[OF demo_server_bob, where e = demo_env
      and ?s1.0 = bob_half_gone and ?s2.0 = bob_gone
      and ?out1.0 = "[ToOthers 12 ''whiteboard_w1'' (UserLeftWhiteboard (user_tag bob))]"
      and ?out2.0 = "[ToOthers 12 ''chat_c1'' (UserTyping (user_tag bob) False)]"]
  from a faulty_cleanup_whiteboard have 1: "on_event faulty_env 11 Disconnect demo_server
     = (drop_socket 11 demo_server,
        [ConsoleError ''Error cleaning up socket disconnect:'' ''storage failure''])"
    by blast
  from b alice_cleanup_whiteboard alice_cleanup_chat have 2: "on_event demo_env 11 Disconnect demo_server
     = (alice_gone,
        [ToOthers 11 ''whiteboard_w1'' (UserLeftWhiteboard (user_tag alice))] @
        [ConsoleError ''Error cleaning up socket disconnect:'' ''User not found in chat''])"
    by blast
  from b have 3: "sockets (fst (on_event demo_env 11 Disconnect demo_server)) 11 = None"
    by blast
  from c bob_cleanup_whiteboard bob_cleanup_chat have 4: "on_event demo_env 12 Disconnect demo_server
     = (bob_gone,
        [ToOthers 12 ''whiteboard_w1'' (UserLeftWhiteboard (user_tag bob)),
         ToOthers 12 ''chat_c1'' (UserTyping (user_tag bob) False),
         ToOthers 12 ''project_p1'' (UserLeftProject (user_tag bob) 1700)])"
    by (simp add: bob_cleanup_project)
  from 1 2 3 4 demo_server_alice demo_server_bob faulty_cleanup_whiteboard
       alice_cleanup_whiteboard alice_cleanup_chat bob_cleanup_whiteboard bob_cleanup_chat
  show ?thesis by blast
qed

lemma alice_connected_socket:
  "sockets alice_connected 11
     = Some \<lparr>sock_user = alice, projectId = None, whiteboardId = None, chatId = None\<rparr>"
  by (simp add: alice_connected_def connect_def demo_authenticate_good join_def)

lemma alice_connected_chats: "chats alice_connected = chats demo_store"
  by (simp add: alice_connected_def connect_def demo_authenticate_good join_def)

lemma alice_in_project_socket:
  "sockets alice_in_project 11
     = Some \<lparr>sock_user = alice, projectId = Some ''p1'', whiteboardId = None, chatId = None\<rparr>"
  by (simp add: alice_in_project_def on_event_def alice_connected_socket join_project_def
        falsy_def Let_def join_def set_sock_def)

lemma alice_in_project_chats: "chats alice_in_project = chats demo_store"
  by (simp add: alice_in_project_def on_event_def alice_connected_socket join_project_def
        falsy_def Let_def join_def set_sock_def alice_connected_chats)

lemma demo_store_chat: "chats demo_store ''c1'' = Some demo_chat"
  by (simp add: demo_store_def)

lemma alice_in_chat_socket: "sockets alice_in_chat 11 = Some alice_visiting"
  by (simp add: alice_in_chat_def on_event_def alice_in_project_socket join_chat_def
        falsy_def Let_def join_def set_sock_def find_chat_def findById_def demo_no_fault
        alice_in_project_chats demo_store_chat alice_visiting_def)

lemma alice_in_chat_chats: "chats alice_in_chat = chats demo_store"
  by (simp add: alice_in_chat_def on_event_def alice_in_project_socket join_chat_def
        falsy_def Let_def join_def set_sock_def find_chat_def findById_def demo_no_fault
        alice_in_project_chats demo_store_chat)

lemma alice_in_chat_reachable: "reachable alice_in_chat"
  unfolding alice_in_chat_def alice_in_project_def alice_connected_def
  by (intro reachable.event reachable.accept reachable.start) (simp_all add: demo_store_def)

lemma alice_visiting_whiteboard:
  "cleanup_whiteboard demo_env 11 alice_visiting s = Inr (s, [])"
  by (simp add: cleanup_whiteboard_def alice_visiting_def falsy_def)

lemma alice_visiting_chat:
  "cleanup_chat demo_env 11 alice_visiting (drop_socket 11 alice_in_chat)
     = Inl ''User not found in chat''"
  by (simp add: cleanup_chat_def alice_visiting_def falsy_def find_chat_def findById_def demo_no_fault
        drop_socket_def alice_in_chat_chats demo_store_chat Let_def)
     (simp add: alice_def alice_not_participant)

text \<open>
  C5 as stated fails. Alice connects, joins project \<open>p1\<close> and the room of chat \<open>c1\<close>
  without being a participant of the chat document. On her disconnect the typing cleanup
  throws, and the notice \<^verbatim>\<open>user-left-project\<close>, which the project cleanup alone would
  send, is not sent: the log entry is all there is.
\<close>

theorem disconnect_skips_project_notice:
  "snd (on_event demo_env 11 Disconnect alice_in_chat)
     = [ConsoleError ''Error cleaning up socket disconnect:'' ''User not found in chat''] \<and>
   reachable alice_in_chat \<and> sockets alice_in_chat 11 = Some alice_visiting \<and>
   cleanup_project demo_env 11 alice_visiting
     = [ToOthers 11 ''project_p1'' (UserLeftProject (user_tag alice) 1700)]"
  by (simp add: on_event_def alice_in_chat_socket disconnect_def alice_visiting_whiteboard
        alice_visiting_chat alice_in_chat_reachable Let_def)
     (simp add: cleanup_project_def alice_visiting_def falsy_def demo_env_def)

section \<open>Editing a deleted message\<close>

lemma find_update_first:
  "find p xs = Some m \<Longrightarrow> p (f m) \<Longrightarrow> find p (update_first p f xs) = Some (f m)"
  by (induction xs) (auto split: if_splits)

lemma list_all_update_first:
  "find p xs = Some m \<Longrightarrow> list_all P xs \<Longrightarrow> P (f m) \<Longrightarrow> list_all P (update_first p f xs)"
  by (induction xs) (auto split: if_splits)

lemma find_Some_mem: "find p xs = Some m \<Longrightarrow> m \<in> set xs \<and> p m"
  by (induction xs) (auto split: if_splits)

lemma update_first_changes:
  "find p xs = Some m \<Longrightarrow> f m \<noteq> m \<Longrightarrow> update_first p f xs \<noteq> xs"
  by (induction xs) (auto split: if_splits)

lemma demo_message_deleted: "isDeleted demo_message"
  by (simp add: demo_message_def)

lemma demo_find_m1: "find (\<lambda>m. msg_id m = ''m1'') (messages demo_chat) = Some demo_message"
  by (simp add: demo_chat_def demo_message_def)

lemma demo_edit_doc:
  "updateMessage_doc demo_env ''m1'' (content_edit ''edited'') demo_chat
     = Inr (demo_chat\<lparr>messages := [demo_message\<lparr>content := ''edited'', isEdited := True,
                                           editedAt := Some 1700\<rparr>]\<rparr>)"
  by (simp add: updateMessage_doc_def demo_find_m1)
     (simp add: demo_chat_def demo_message_def assign_message_def content_edit_def opt_or_def
        demo_env_def)

lemma edited_valid:
  "valid_message (demo_message\<lparr>content := ''edited'', isEdited := True, editedAt := Some 1700\<rparr>)"
  by (simp add: demo_message_def valid_message_def message_types_def)

text \<open>
  C6, as the code has it. \<^verbatim>\<open>updateMessage\<close> does not reject an edit of a message whose
  deleted flag is set: an edit carrying new content replaces the content and marks the
  message edited, and the save stores it. The message keeps its id, sender, creation date,
  type, read-by and reaction lists, and stays flagged deleted with its deletion date.
\<close>

theorem edit_of_deleted_message:
  assumes "find (\<lambda>m. msg_id m = mid) (messages c) = Some m" and "isDeleted m"
      and "t \<noteq> []" and "length t \<le> 2000"
      and "\<not> db_fault e k" and "list_all valid_message (messages c)"
  shows "\<exists>c' s' m'. updateMessage e k cid mid (content_edit t) c s = Inr (c', s') \<and>
           chats s' cid = Some c' \<and>
           find (\<lambda>m. msg_id m = mid) (messages c') = Some m' \<and>
           content m' = t \<and> isEdited m' \<and> editedAt m' = Some (now e) \<and>
           msg_id m' = msg_id m \<and> sender m' = sender m \<and> msg_createdAt m' = msg_createdAt m \<and>
           msg_type m' = msg_type m \<and> readBy m' = readBy m \<and> reactions m' = reactions m \<and>
           isDeleted m' \<and> deletedAt m' = deletedAt m"
proof -
  let ?f = "assign_message e (content_edit t)"
  let ?p = "\<lambda>m. msg_id m = mid"
  from find_Some_mem[OF assms(1)] have mem: "m \<in> set (messages c)" and pm: "msg_id m = mid"
    by simp_all
  from assms(6) mem have vm: "valid_message m" by (simp add: list_all_iff)
  have id: "?p (?f m)" using pm by (simp add: assign_message_def content_edit_def opt_or_def)
  have v: "valid_message (?f m)"
    using vm assms(3,4) by (simp add: valid_message_def assign_message_def content_edit_def opt_or_def)
  have d: "updateMessage_doc e mid (content_edit t) c
             = Inr (c\<lparr>messages := update_first ?p ?f (messages c)\<rparr>)"
    using assms(1) by (simp add: updateMessage_doc_def)
  have va: "list_all valid_message (update_first ?p ?f (messages c))"
    using list_all_update_first[where p = ?p and f = ?f and P = valid_message
        and xs = "messages c" and m = m] assms(1,6) v by blast
  have fd: "find ?p (update_first ?p ?f (messages c)) = Some (?f m)"
    using find_update_first[where p = ?p and f = ?f and xs = "messages c" and m = m]
      assms(1) id by blast
  obtain c' s' where r: "updateMessage e k cid mid (content_edit t) c s = Inr (c', s')"
      and c': "messages c' = update_first ?p ?f (messages c)" and s': "chats s' cid = Some c'"
    using assms(5) va by (simp add: updateMessage_def d save_chat_def Let_def)
  have "content (?f m) = t \<and> isEdited (?f m) \<and> editedAt (?f m) = Some (now e) \<and>
           msg_id (?f m) = msg_id m \<and> sender (?f m) = sender m \<and>
           msg_createdAt (?f m) = msg_createdAt m \<and>
           msg_type (?f m) = msg_type m \<and> readBy (?f m) = readBy m \<and>
           reactions (?f m) = reactions m \<and>
           isDeleted (?f m) \<and> deletedAt (?f m) = deletedAt m"
    using assms(2) by (simp add: assign_message_def content_edit_def opt_or_def)
  with r c' s' fd show ?thesis by auto
qed

theorem edit_of_deleted_message_witness:
  "find (\<lambda>m. msg_id m = ''m1'') (messages demo_chat) = Some demo_message \<and>
   isDeleted demo_message \<and> ''edited'' \<noteq> [] \<and> length ''edited'' \<le> 2000 \<and>
   \<not> db_fault demo_env 0 \<and> list_all valid_message (messages demo_chat) \<and>
   (\<exists>c' s' m'. updateMessage demo_env 0 ''c1'' ''m1'' (content_edit ''edited'') demo_chat demo_server
                  = Inr (c', s') \<and>
       find (\<lambda>m. msg_id m = ''m1'') (messages c') = Some m' \<and>
       content m' = ''edited'' \<and> isDeleted m')"
proof -
  have a: "''edited'' \<noteq> []" by simp
  have b: "length ''edited'' \<le> 2000" by simp
  have c: "\<not> db_fault demo_env 0" by (simp add: demo_no_fault)
  have d: "list_all valid_message (messages demo_chat)"
    by (simp add: demo_chat_def demo_message_def valid_message_def message_types_def)
  from edit_of_deleted_message[OF demo_find_m1 demo_message_deleted a b c d,
      where cid = "''c1''" and s = demo_server]
  have "\<exists>c' s' m'. updateMessage demo_env 0 ''c1'' ''m1'' (content_edit ''edited'') demo_chat demo_server
                  = Inr (c', s') \<and>
       find (\<lambda>m. msg_id m = ''m1'') (messages c') = Some m' \<and>
       content m' = ''edited'' \<and> isDeleted m'"
    by blast
  with demo_find_m1 demo_message_deleted a b c d show ?thesis by blast
qed

text \<open>
  C6 as stated fails: message \<open>m1\<close> of the chat is deleted, and the edit is stored with
  the new content.
\<close>

theorem deleted_message_edited:
  "isDeleted demo_message \<and>
   updateMessage demo_env 0 ''c1'' ''m1'' (content_edit ''edited'') demo_chat demo_server
     = Inr (edited_chat, demo_server\<lparr>chats := (chats demo_server)(''c1'' \<mapsto> edited_chat)\<rparr>)"
  by (simp add: demo_message_deleted updateMessage_def demo_edit_doc save_chat_def demo_no_fault
        edited_valid demo_server_chat Let_def edited_chat_def)
     (simp add: demo_chat_def demo_message_def demo_env_def)

section \<open>Element ids\<close>

lemma addElement_ids:
  "map el_id (elements (addElement_doc e d wb)) = map el_id (elements wb) @ [element_id_for e (ed_id d)]"
  by (simp add: addElement_doc_def)

lemma save_whiteboard_elements:
  "save_whiteboard e k w wb s = Inr (wb', s') \<Longrightarrow>
     whiteboards s' w = Some wb' \<and> elements wb' = elements wb"
  by (auto simp: save_whiteboard_def Let_def split: if_splits)

lemma dup_data:
  "addElement_doc demo_env
     \<lparr>ed_id = Some ''dup'', ed_type = Some ''circle'', ed_x = Some 1, ed_y = Some 2,
      ed_width = None, ed_height = None, ed_text = None, ed_rotation = None,
      ed_zIndex = None, ed_createdBy = Some who\<rparr> wb
   = wb\<lparr>elements := elements wb @ [dup_element who]\<rparr>"
  by (simp add: addElement_doc_def element_id_for_def falsy_def opt_or_def dup_element_def
        demo_env_def)

lemma dup_element_valid: "valid_element (dup_element who)"
  by (simp add: dup_element_def valid_element_def element_types_def)

lemma demo_board_version: "version demo_board = 2"
  by (simp add: demo_board_def)

lemma first_add:
  "on_event demo_env 11 add_dup demo_server
     = (added_once,
        [ToOthers 11 ''whiteboard_w1''
           (WhiteboardElementAdded
              \<lparr>ed_id = Some ''dup'', ed_type = Some ''circle'', ed_x = Some 1, ed_y = Some 2,
               ed_width = None, ed_height = None, ed_text = None, ed_rotation = None,
               ed_zIndex = None, ed_createdBy = Some ''u1''\<rparr>
              (user_tag alice))])"
  by (simp add: on_event_def add_dup_def demo_server_alice whiteboard_element_add_def falsy_def
        find_whiteboard_def findById_def demo_no_fault demo_server_board Let_def alice_socket_def)
     (simp add: alice_def addElement_def dup_data save_whiteboard_def demo_no_fault
        demo_board_valid dup_element_valid demo_server_board Let_def added_once_def
        board_once_def demo_board_version)

lemma added_once_bob: "sockets added_once 12 = Some bob_socket"
  by (simp add: added_once_def demo_server_bob)

lemma added_once_board: "whiteboards added_once ''w1'' = Some board_once"
  by (simp add: added_once_def)

lemma board_once_valid: "list_all valid_element (elements board_once)"
  by (simp add: board_once_def demo_board_valid dup_element_valid)

lemma second_add:
  "fst (on_event demo_env 12 add_dup added_once) = added_twice"
  by (simp add: on_event_def add_dup_def added_once_bob whiteboard_element_add_def falsy_def
        find_whiteboard_def findById_def demo_no_fault added_once_board Let_def bob_socket_def)
     (simp add: bob_def addElement_def dup_data save_whiteboard_def demo_no_fault
        board_once_valid dup_element_valid added_once_board Let_def added_twice_def
        board_twice_def, simp add: board_once_def added_once_def)

lemma demo_fresh_id: "element_id_for demo_env (ed_id add_fresh) = ''element_1700_k3j9x2m1q''"
  by (simp add: element_id_for_def add_fresh_def falsy_def demo_env_def show_nat_1700)

text \<open>
  C7, as the code has it. A \<^verbatim>\<open>whiteboard-element-add\<close> leaves the element ids of the
  stored whiteboard pairwise different whenever they were so before and the id of the
  added element (the client's, or else the generated one) is not yet among them. The
  server makes no check of its own.
\<close>

theorem element_add_fresh_id_keeps_unique:
  assumes "sockets s sid = Some sock" and "whiteboards s w = Some wb"
      and "distinct (map el_id (elements wb))"
      and "element_id_for e (ed_id d) \<notin> set (map el_id (elements wb))"
  shows "\<exists>wb'. whiteboards (fst (on_event e sid (WhiteboardElementAdd (Some w) (Some d)) s)) w
                 = Some wb' \<and>
               distinct (map el_id (elements wb'))"
proof (cases "falsy (Some w) \<or> db_fault e 0")
  case True
  with assms(1,2,3) show ?thesis
    by (auto simp: on_event_def whiteboard_element_add_def find_whiteboard_def findById_def Let_def)
next
  case False
  let ?d = "d\<lparr>ed_createdBy := Some (uid (sock_user sock))\<rparr>"
  have ids: "map el_id (elements (addElement_doc e ?d wb))
               = map el_id (elements wb) @ [element_id_for e (ed_id d)]"
    by (simp add: addElement_ids)
  show ?thesis
  proof (cases "addElement e 1 w ?d wb s")
    case (Inl err)
    with False assms(1,2,3) show ?thesis
      by (simp add: on_event_def whiteboard_element_add_def find_whiteboard_def findById_def Let_def
            del: One_nat_def)
  next
    case (Inr p)
    obtain wb' s' where p: "p = (wb', s')" by (cases p)
    from Inr p have "save_whiteboard e 1 w (addElement_doc e ?d wb) s = Inr (wb', s')"
      by (simp add: addElement_def)
    from save_whiteboard_elements[OF this]
    have k: "whiteboards s' w = Some wb'" "elements wb' = elements (addElement_doc e ?d wb)"
      by simp_all
    from k(2) ids assms(3,4) have "distinct (map el_id (elements wb'))" by simp
    with False assms(1,2) Inr p k(1) show ?thesis
      by (simp add: on_event_def whiteboard_element_add_def find_whiteboard_def findById_def Let_def
            del: One_nat_def)
  qed
qed

theorem element_add_fresh_id_keeps_unique_witness:
  "sockets demo_server 11 = Some alice_socket \<and> whiteboards demo_server ''w1'' = Some demo_board \<and>
   distinct (map el_id (elements demo_board)) \<and>
   element_id_for demo_env (ed_id add_fresh) \<notin> set (map el_id (elements demo_board)) \<and>
   (\<exists>wb'. whiteboards (fst (on_event demo_env 11
                  (WhiteboardElementAdd (Some ''w1'') (Some add_fresh)) demo_server)) ''w1''
             = Some wb' \<and>
           distinct (map el_id (elements wb')))"
proof -
  have a: "distinct (map el_id (elements demo_board))" by (simp add: demo_board_def)
  have b: "element_id_for demo_env (ed_id add_fresh) \<notin> set (map el_id (elements demo_board))"
    by (simp add: demo_fresh_id demo_board_def)
  from element_add_fresh_id_keeps_unique[OF demo_server_alice demo_server_board a b]
       demo_server_alice demo_server_board a b
  show ?thesis by blast
qed

text \<open>
  C7 as stated fails: two \<^verbatim>\<open>whiteboard-element-add\<close> events that carry the same client id
  \<open>dup\<close> are both stored, and the element list holds the id twice.
\<close>

theorem repeated_client_id_stored_twice:
  "map_option (\<lambda>wb. map el_id (elements wb))
     (whiteboards (fst (on_event demo_env 12 add_dup (fst (on_event demo_env 11 add_dup demo_server))))
        ''w1'')
   = Some [''e1'', ''dup'', ''dup'']"
  by (simp add: first_add second_add)
     (simp add: added_twice_def board_twice_def demo_board_def dup_element_def)

end
